theory Spec2Isabelle
  imports Complex_Main "HOL-Library.Word"
begin

section \<open>The SIFT command line driver (sift-driver.c)\<close>

text \<open>
  The driver is a single C file: \<^verbatim>\<open>save_gss\<close> writes the levels of one octave as PGM
  images, \<^verbatim>\<open>main\<close> parses the options and then processes one image per iteration of
  its \<^verbatim>\<open>while (argc--)\<close> loop. The model below follows the file top to bottom.

  Everything the driver calls but does not define (the detector, the PGM codec, the
  file-meta helpers, the C library) is either an input of the model (an environment
  record holding the result of each call) or, for the three file-meta helpers and the
  string helpers, a definition written after the specification of the Output Sink.
  Output is modelled as the list of events the program performs on its four sinks and on
  the error stream; diagnostics printed on the standard output under \<^verbatim>\<open>--verbose\<close>
  are left out. Samples, coordinates and angles (C \<^verbatim>\<open>float\<close> and \<^verbatim>\<open>double\<close>) are
  modelled as reals: the driver only moves them around.
\<close>

subsection \<open>Error codes and sinks\<close>

text \<open>
  The non-zero error codes of the library. A status (the C variable \<^verbatim>\<open>err\<close>) is an
  optional error code: \<open>None\<close> is \<^verbatim>\<open>VL_ERR_OK\<close>, which is what \<^verbatim>\<open>if (err)\<close> tests.
  \<open>VL_ERR_EOF\<close> is the detector's signal that there is no further octave.
\<close>

datatype vl_err = VL_ERR_OVERFLOW | VL_ERR_ALLOC | VL_ERR_BAD_ARG | VL_ERR_IO | VL_ERR_EOF

type_synonym status = "vl_err option"

definition VL_ERR_OK :: status where
  "VL_ERR_OK = None"

text \<open>
  Modelled from the spec: the protocol enumeration of the Output Sink (its declaration is
  in a header that is not part of the source file): ASCII, ASCII-framed, binary
  little-endian and binary big-endian. Only \<open>VL_PROT_ASCII\<close> is named by the driver.
\<close>

datatype vl_prot = VL_PROT_ASCII | VL_PROT_ASCII_FRAMED | VL_PROT_BINARY_LE | VL_PROT_BINARY_BE

text \<open>
  \<^verbatim>\<open>VlFileMeta\<close>, initialised in \<^verbatim>\<open>main\<close> as \<^verbatim>\<open>{active, pattern, protocol, name, file}\<close>.
  An open \<^verbatim>\<open>FILE *\<close> is modelled by the path it was opened on, the null pointer by
  \<open>None\<close>; the field \<^verbatim>\<open>file\<close> is called \<open>fm_file\<close>.
\<close>

record VlFileMeta =
  active :: bool
  pattern :: string
  protocol :: vl_prot
  name :: string
  fm_file :: "string option"

text \<open>The four sinks the driver writes to, by the variable that holds them.\<close>

datatype sink_id = FRM | DSC | MET | GSS

record VlPgmImage =
  width :: int
  height :: int
  max_value :: int
  is_raw :: int

text \<open>One line of text written with \<^verbatim>\<open>fprintf\<close>, by the format that produces it.\<close>

datatype out_line =
    Frame real real real real
  | Descr "real list"
  | Meta_open
  | Meta_input string
  | Meta_descriptors string
  | Meta_frames string
  | Meta_close

text \<open>
  What the program does on a sink or on the error stream. \<open>Stderr m e\<close> is the line
  \<^verbatim>\<open>fprintf (stderr, ...)\<close> prints from \<^verbatim>\<open>err_msg\<close> and \<^verbatim>\<open>err\<close>; the fixed words before
  the message (\<^verbatim>\<open>sift: err:\<close>, or the program name and \<^verbatim>\<open>error:\<close> after option
  parsing) are left out.
\<close>

datatype event =
    Fopen sink_id string
  | Fprintf sink_id out_line
  | Pgm_insert sink_id VlPgmImage "8 word list"
  | Fclose sink_id
  | Stderr string status

subsection \<open>The environment: results of the calls the driver does not define\<close>

record VlSiftKeypoint =
  kx :: real
  ky :: real
  ksigma :: real

text \<open>
  The detector as the driver sees it after one successful octave advance:
  \<^verbatim>\<open>filt->S\<close>, \<^verbatim>\<open>filt->o_cur\<close>, \<^verbatim>\<open>vl_sift_get_octave_width/height\<close>,
  \<^verbatim>\<open>vl_sift_get_octave (filt, s)\<close> (a pointer, read at index \<open>i\<close>), the keypoints found
  by \<^verbatim>\<open>vl_sift_detect\<close>, the angles \<^verbatim>\<open>vl_sift_calc_keypoint_orientations\<close> stores for
  the keypoint at index \<open>k\<close> (its result \<^verbatim>\<open>nangles\<close> is their number), and the vector
  \<^verbatim>\<open>vl_sift_calc_keypoint_descriptor\<close> stores for keypoint \<open>k\<close> and an angle.
  The last two fields are what the call to \<^verbatim>\<open>malloc\<close> in \<^verbatim>\<open>save_gss\<close> returns during
  this octave and the value the caller of \<^verbatim>\<open>save_gss\<close> reads when the function ends
  without a \<^verbatim>\<open>return\<close> statement.
\<close>

record VlSiftFilt =
  filt_S :: int
  filt_o_cur :: int
  octave_width :: int
  octave_height :: int
  octave :: "int \<Rightarrow> nat \<Rightarrow> real"
  keypoints :: "VlSiftKeypoint list"
  orientations :: "nat \<Rightarrow> real list"
  descriptor :: "nat \<Rightarrow> real \<Rightarrow> nat \<Rightarrow> real"
  gss_malloc :: bool
  gss_result :: status

text \<open>
  What the successive calls of \<^verbatim>\<open>vl_sift_process_first_octave\<close> and
  \<^verbatim>\<open>vl_sift_process_next_octave\<close> return for one image: \<open>Octave f d\<close> is a call that
  returns \<^verbatim>\<open>VL_ERR_OK\<close> and leaves the detector as \<open>f\<close>, \<open>NoMore e\<close> a call that
  returns the non-zero code \<open>e\<close>.
\<close>

datatype detector = NoMore vl_err | Octave VlSiftFilt detector

text \<open>
  The results of the library calls. A call that reads the input image is keyed by the
  image's path (\<^verbatim>\<open>name\<close> in \<^verbatim>\<open>main\<close>), a call on an output file by the file's path.
  \<open>name_max\<close> is the maximum supported length of a resolved path.
  \<open>vl_string_basename\<close> gives the whole base name of a path, of which the C function
  returns the length. \<open>vl_sift_new\<close> stands for the detector built for one image (its
  path, the width and height of the image, and \<^verbatim>\<open>O\<close>, \<^verbatim>\<open>S\<close>, \<^verbatim>\<open>omin\<close>): \<open>None\<close> is
  the null pointer. \<open>sscanf_d\<close> and \<open>sscanf_lf\<close> take the argument and the old value
  of the variable and give the result \<^verbatim>\<open>n\<close> of \<^verbatim>\<open>sscanf\<close> and the new value of the
  variable.
\<close>

record env =
  name_max :: nat
  fopen_w :: "string \<Rightarrow> bool"
  pgm_insert :: "string \<Rightarrow> status"
  vl_string_basename :: "string \<Rightarrow> string"
  fopen_r :: "string \<Rightarrow> bool"
  vl_pgm_extract_head :: "string \<Rightarrow> status \<times> VlPgmImage"
  malloc_data :: "string \<Rightarrow> bool"
  malloc_fdata :: "string \<Rightarrow> bool"
  vl_pgm_extract_data :: "string \<Rightarrow> status"
  vl_sift_new :: "string \<Rightarrow> int \<Rightarrow> int \<Rightarrow> int \<Rightarrow> int \<Rightarrow> int \<Rightarrow> detector option"
  vl_file_meta_parse :: "VlFileMeta \<Rightarrow> string option \<Rightarrow> status \<times> VlFileMeta"
  sscanf_d :: "string \<Rightarrow> int \<Rightarrow> int \<times> int"
  sscanf_lf :: "string \<Rightarrow> real \<Rightarrow> int \<times> real"

subsection \<open>File-meta helpers\<close>

text \<open>
  Modelled from the spec: the base-name placeholder of a pattern (the wildcard
  substitution is a library function that is not part of the source file). The
  patterns of the driver, \<^verbatim>\<open>"%.frame"\<close> and the like, use \<^verbatim>\<open>%\<close>.
\<close>

definition resolve :: "string \<Rightarrow> string \<Rightarrow> string" where
  "resolve pat base = concat (map (\<lambda>c. if c = CHR ''%'' then base else [c]) pat)"

text \<open>
  Modelled from the spec: \<^verbatim>\<open>vl_file_meta_open\<close>, which is not part of the source file
  (resolveAndOpen of the Output Sink). If the sink is not active it is a no-op that
  leaves the sink untouched. Otherwise it substitutes the base name into the pattern,
  fails with the overflow error if the resolved path exceeds the maximum supported
  length, then opens the resolved path, failing with the I/O error on failure.
\<close>

definition vl_file_meta_open ::
  "env \<Rightarrow> sink_id \<Rightarrow> VlFileMeta \<Rightarrow> string \<Rightarrow> status \<times> VlFileMeta \<times> event list" where
  "vl_file_meta_open E i fm basename =
     (if \<not> active fm then (VL_ERR_OK, fm, [])
      else
        let p = resolve (pattern fm) basename in
        if length p > name_max E then (Some VL_ERR_OVERFLOW, fm, [])
        else if \<not> fopen_w E p then (Some VL_ERR_IO, fm\<lparr>name := p\<rparr>, [])
        else (VL_ERR_OK, fm\<lparr>name := p, fm_file := Some p\<rparr>, [Fopen i p]))"

text \<open>
  Modelled from the spec: \<^verbatim>\<open>vl_file_meta_close\<close>, which is not part of the source file
  (close of the Output Sink): idempotent; releases the handle if open, otherwise no-op.
\<close>

definition vl_file_meta_close :: "sink_id \<Rightarrow> VlFileMeta \<Rightarrow> VlFileMeta \<times> event list" where
  "vl_file_meta_close i fm =
     (case fm_file fm of
        None \<Rightarrow> (fm, [])
      | Some p \<Rightarrow> (fm\<lparr>fm_file := None\<rparr>, [Fclose i]))"

text \<open>
  Modelled from the spec: \<^verbatim>\<open>vl_pgm_insert\<close>, which is not part of the source file
  (encode of the Raster Codec): writes the header and the pixel block, or fails on a
  write failure. The environment decides by the path of the open file.
\<close>

definition vl_pgm_insert ::
  "env \<Rightarrow> sink_id \<Rightarrow> VlFileMeta \<Rightarrow> VlPgmImage \<Rightarrow> 8 word list \<Rightarrow> status \<times> event list" where
  "vl_pgm_insert E i fm pim buffer =
     (case pgm_insert E (name fm) of
        None \<Rightarrow> (VL_ERR_OK, [Pgm_insert i pim buffer])
      | Some e \<Rightarrow> (Some e, []))"

subsection \<open>Formatting and narrowing in \<^verbatim>\<open>save_gss\<close>\<close>

definition digit_char :: "nat \<Rightarrow> char" where
  "digit_char d = ''0123456789'' ! (d mod 10)"

function dec :: "nat \<Rightarrow> string" where
  "dec n = (if n < 10 then [digit_char n] else dec (n div 10) @ [digit_char n])"
  by pat_completeness auto
termination
  by (relation "measure (\<lambda>n. n)") auto

declare dec.simps [simp del]

text \<open>
  \<^verbatim>\<open>printf\<close>'s \<^verbatim>\<open>%0<w>d\<close>: the decimal digits, padded with zeros on the left up to a
  width of \<open>w\<close> characters; a minus sign counts in the width. A number with more
  digits is printed in full.
\<close>

definition fmt_0d :: "nat \<Rightarrow> int \<Rightarrow> string" where
  "fmt_0d w v =
     (if v < 0
      then CHR ''-'' # replicate (w - 1 - length (dec (nat (- v)))) CHR ''0'' @ dec (nat (- v))
      else replicate (w - length (dec (nat v))) CHR ''0'' @ dec (nat v))"

text \<open>The format \<^verbatim>\<open>"_%02d_%03d"\<close> applied to \<open>o\<close> and \<open>s\<close>.\<close>

definition gss_suffix :: "int \<Rightarrow> int \<Rightarrow> string" where
  "gss_suffix o_cur s = CHR ''_'' # fmt_0d 2 o_cur @ CHR ''_'' # fmt_0d 3 s"

text \<open>
  The cast \<^verbatim>\<open>(vl_uint8) pt [i]\<close>: the fractional part is discarded; a value outside
  the range of the type is reduced modulo 256.
\<close>

definition to_uint8 :: "real \<Rightarrow> 8 word" where
  "to_uint8 v = word_of_int (if 0 \<le> v then \<lfloor>v\<rfloor> else \<lceil>v\<rceil>)"

subsection \<open>\<^verbatim>\<open>save_gss\<close>\<close>

text \<open>
  The loop \<^verbatim>\<open>for (s = 0 ; s < S ; ++s)\<close>. The result is the value of the local \<^verbatim>\<open>err\<close>,
  the sink and the events at the label \<^verbatim>\<open>save_gss_quit\<close>. \<open>q\<close> is the length of the
  base name in \<^verbatim>\<open>tmp\<close>, a buffer of 1024 characters: \<^verbatim>\<open>snprintf\<close> stores at most
  \<open>1024 - q - 1\<close> characters of the suffix.
\<close>

function gss_levels ::
  "env \<Rightarrow> VlSiftFilt \<Rightarrow> string \<Rightarrow> int \<Rightarrow> status \<Rightarrow> VlFileMeta \<Rightarrow> status \<times> VlFileMeta \<times> event list"
  where
  "gss_levels E filt basename s err fm =
     (if s < filt_S filt then
        let w = octave_width filt; h = octave_height filt;
            pim = \<lparr>width = w, height = h, max_value = 255, is_raw = 1\<rparr>;
            buffer = map (\<lambda>i. to_uint8 (octave filt s i)) [0 ..< nat (w * h)];
            q = length basename;
            tmp = basename @ take (1024 - q - 1) (gss_suffix (filt_o_cur filt) s);
            (err1, fm1, ev1) = vl_file_meta_open E GSS fm tmp
        in if err1 \<noteq> VL_ERR_OK then (err1, fm1, ev1)
           else
             let (err2, ev2) = vl_pgm_insert E GSS fm1 pim buffer
             in if err2 \<noteq> VL_ERR_OK then (err2, fm1, ev1 @ ev2)
                else
                  let (fm2, ev3) = vl_file_meta_close GSS fm1;
                      (err', fm', ev') = gss_levels E filt basename (s + 1) err2 fm2
                  in (err', fm', ev1 @ ev2 @ ev3 @ ev')
      else (err, fm, []))"
  by pat_completeness auto
termination
  by (relation "measure (\<lambda>(E, filt, basename, s, err, fm). nat (filt_S filt - s))") auto

declare gss_levels.simps [simp del]

text \<open>
  The body of \<^verbatim>\<open>save_gss\<close> for an active sink, up to the label \<^verbatim>\<open>save_gss_quit\<close>.
  \<open>err0\<close> is the value of the local \<^verbatim>\<open>err\<close>, which has no initialiser.
  \<^verbatim>\<open>vl_string_copy (tmp, sizeof(tmp), basename)\<close> returns the length of the base name.
\<close>

definition save_gss_body ::
  "env \<Rightarrow> VlSiftFilt \<Rightarrow> VlFileMeta \<Rightarrow> string \<Rightarrow> status \<Rightarrow> status \<times> VlFileMeta \<times> event list" where
  "save_gss_body E filt fm basename err0 =
     (if \<not> gss_malloc filt then (Some VL_ERR_ALLOC, fm, [])
      else if length basename \<ge> 1024 then (Some VL_ERR_OVERFLOW, fm, [])
      else gss_levels E filt basename 0 err0 fm)"

text \<open>
  \<^verbatim>\<open>save_gss\<close>. The only \<^verbatim>\<open>return\<close> statement is the one of the inactive sink. After
  the label \<^verbatim>\<open>save_gss_quit\<close> the function frees the buffer, closes the sink and ends
  without returning a value: the caller reads \<open>gss_result filt\<close>, whatever the local
  \<^verbatim>\<open>err\<close> holds.
\<close>

definition save_gss ::
  "env \<Rightarrow> VlSiftFilt \<Rightarrow> VlFileMeta \<Rightarrow> string \<Rightarrow> status \<times> VlFileMeta \<times> event list" where
  "save_gss E filt fm basename =
     (if \<not> active fm then (VL_ERR_OK, fm, [])
      else
        let (err, fm1, ev1) = save_gss_body E filt fm basename (gss_result filt);
            (fm2, ev2) = vl_file_meta_close GSS fm1
        in (gss_result filt, fm2, ev1 @ ev2))"

subsection \<open>\<^verbatim>\<open>main\<close>: the variables\<close>

text \<open>The five \<^verbatim>\<open>VlFileMeta\<close> variables of \<^verbatim>\<open>main\<close>.\<close>

record sinks =
  frm :: VlFileMeta
  dsc :: VlFileMeta
  met :: VlFileMeta
  gss :: VlFileMeta
  ifr :: VlFileMeta

text \<open>
  The variables of \<^verbatim>\<open>main\<close> at the end of option parsing (\<^verbatim>\<open>O\<close> and \<^verbatim>\<open>S\<close> are
  \<open>opt_O\<close> and \<open>opt_S\<close>).
\<close>

record options = sinks +
  edges_tresh :: real
  peaks_tresh :: real
  opt_O :: int
  opt_S :: int
  omin :: int
  verbose :: int
  opt_err :: status
  opt_err_msg :: string

text \<open>The initialisers at the top of \<^verbatim>\<open>main\<close>.\<close>

definition initial_options :: options where
  "initial_options =
     \<lparr>frm = \<lparr>active = True, pattern = ''%.frame'', protocol = VL_PROT_ASCII,
              name = [], fm_file = None\<rparr>,
      dsc = \<lparr>active = False, pattern = ''%.descr'', protocol = VL_PROT_ASCII,
              name = [], fm_file = None\<rparr>,
      met = \<lparr>active = False, pattern = ''%.meta'', protocol = VL_PROT_ASCII,
              name = [], fm_file = None\<rparr>,
      gss = \<lparr>active = False, pattern = ''%.pgm'', protocol = VL_PROT_ASCII,
              name = [], fm_file = None\<rparr>,
      ifr = \<lparr>active = False, pattern = ''%.frame'', protocol = VL_PROT_ASCII,
              name = [], fm_file = None\<rparr>,
      edges_tresh = 2, peaks_tresh = 2, opt_O = - 1, opt_S = 3, omin = - 1, verbose = 0,
      opt_err = VL_ERR_OK, opt_err_msg = []\<rparr>"

text \<open>
  The variables of one iteration of the image loop at the label \<^verbatim>\<open>done\<close>: the sinks,
  \<^verbatim>\<open>err\<close> and \<^verbatim>\<open>err_msg\<close>, whether \<^verbatim>\<open>in\<close>, \<^verbatim>\<open>data\<close>, \<^verbatim>\<open>fdata\<close> and \<^verbatim>\<open>filt\<close> hold a
  resource (are not null), and the events of the iteration so far.
\<close>

record img_state = sinks +
  st_err :: status
  st_err_msg :: string
  st_in :: bool
  st_data :: bool
  st_fdata :: bool
  st_filt :: bool
  st_out :: "event list"

subsection \<open>\<^verbatim>\<open>main\<close>: messages\<close>

text \<open>The conversion \<^verbatim>\<open>'%s'\<close>: the string between two apostrophes.\<close>

definition quoted :: "string \<Rightarrow> string" where
  "quoted s = CHR 0x27 # s @ [CHR 0x27]"

text \<open>
  \<^verbatim>\<open>snprintf (err_msg, sizeof(err_msg), ...)\<close> for the formatted text \<open>s\<close>: \<^verbatim>\<open>err_msg\<close>
  has 1024 characters, so at most the first 1023 characters of the text are stored.
\<close>

definition snprintf_err_msg :: "string \<Rightarrow> string" where
  "snprintf_err_msg s = take 1023 s"

subsection \<open>\<^verbatim>\<open>main\<close>: the octave loop\<close>

text \<open>
  The body of the loop over the orientations of keypoint \<open>k\<close>, for the angle
  \<^verbatim>\<open>angles [q]\<close>: the frames record reads \<^verbatim>\<open>keys->x\<close>, \<^verbatim>\<open>keys->y\<close>, \<^verbatim>\<open>keys->sigma\<close>,
  that is element 0 of \<^verbatim>\<open>keys\<close>; the descriptors record is the 128 numbers of
  \<^verbatim>\<open>descr\<close>, computed from \<^verbatim>\<open>keys + k\<close>.
\<close>

definition emit_record :: "'a sinks_scheme \<Rightarrow> VlSiftFilt \<Rightarrow> nat \<Rightarrow> real \<Rightarrow> event list" where
  "emit_record K filt k angle =
     (let keys = keypoints filt in
      (if active (frm K)
       then [Fprintf FRM (Frame (kx (keys ! 0)) (ky (keys ! 0)) (ksigma (keys ! 0)) angle)]
       else []) @
      (if active (dsc K)
       then [Fprintf DSC (Descr (map (descriptor filt k angle) [0 ..< 128]))]
       else []))"

text \<open>The loop \<^verbatim>\<open>for (q = 0 ; q < nangles ; ++q)\<close> for keypoint \<open>k\<close>.\<close>

definition emit_keypoint :: "'a sinks_scheme \<Rightarrow> VlSiftFilt \<Rightarrow> nat \<Rightarrow> event list" where
  "emit_keypoint K filt k = concat (map (emit_record K filt k) (orientations filt k))"

text \<open>The loop \<^verbatim>\<open>for (k = 0 ; k < nkeys ; ++k)\<close>.\<close>

definition emit_keypoints :: "'a sinks_scheme \<Rightarrow> VlSiftFilt \<Rightarrow> event list" where
  "emit_keypoints K filt =
     concat (map (emit_keypoint K filt) [0 ..< length (keypoints filt)])"

text \<open>
  The statements \<^verbatim>\<open>if (gss.active) { err = save_gss (filt, &gss, basename, verbose) ; ... }\<close>
  up to the test of \<^verbatim>\<open>err\<close>. The source tests \<^verbatim>\<open>err\<close> inside the block; the loop
  below tests it after the block, where \<^verbatim>\<open>err\<close> is still clear if the sink is inactive.
\<close>

definition snapshot_octave :: "env \<Rightarrow> string \<Rightarrow> VlSiftFilt \<Rightarrow> img_state \<Rightarrow> img_state" where
  "snapshot_octave E basename filt st =
     (if active (gss st)
      then let (err, fm, ev) = save_gss E filt (gss st) basename
           in st\<lparr>st_err := err, gss := fm, st_out := st_out st @ ev\<rparr>
      else st)"

text \<open>The detection pass of one octave: \<^verbatim>\<open>vl_sift_detect\<close> and the loop over the keypoints.\<close>

definition detect_and_emit :: "VlSiftFilt \<Rightarrow> img_state \<Rightarrow> img_state" where
  "detect_and_emit filt st = st\<lparr>st_out := st_out st @ emit_keypoints st filt\<rparr>"

text \<open>How the octave loop is left: by \<^verbatim>\<open>break\<close> or by \<^verbatim>\<open>goto done\<close>.\<close>

datatype loop_exit = Break img_state | Goto_done img_state

text \<open>
  The loop \<^verbatim>\<open>while (1)\<close>, one equation per result of the octave advance. The flag
  \<^verbatim>\<open>first\<close> only selects which of the two detector functions is called. A non-zero
  result of the advance, whichever it is, clears \<^verbatim>\<open>err\<close> and leaves the loop.
\<close>

fun octave_loop :: "env \<Rightarrow> string \<Rightarrow> detector \<Rightarrow> img_state \<Rightarrow> loop_exit" where
  "octave_loop E basename (NoMore e) st = Break (st\<lparr>st_err := VL_ERR_OK\<rparr>)"
| "octave_loop E basename (Octave filt d) st =
     (let st1 = snapshot_octave E basename filt (st\<lparr>st_err := VL_ERR_OK\<rparr>)
      in if st_err st1 \<noteq> VL_ERR_OK
         then Goto_done (st1\<lparr>st_err_msg := snprintf_err_msg ''Could not write GSS level to PGM file.''\<rparr>)
         else octave_loop E basename d (detect_and_emit filt st1))"

subsection \<open>\<^verbatim>\<open>main\<close>: one image\<close>

text \<open>The block under \<^verbatim>\<open>Meta file\<close>.\<close>

definition write_meta :: "string \<Rightarrow> img_state \<Rightarrow> img_state" where
  "write_meta path st =
     (if active (met st)
      then st\<lparr>st_out := st_out st @
             [Fprintf MET Meta_open, Fprintf MET (Meta_input path)] @
             (if active (dsc st) then [Fprintf MET (Meta_descriptors (name (dsc st)))] else []) @
             (if active (frm st) then [Fprintf MET (Meta_frames (name (frm st)))] else []) @
             [Fprintf MET Meta_close]\<rparr>
      else st)"

text \<open>From \<^verbatim>\<open>vl_sift_new\<close> to the label \<^verbatim>\<open>done\<close>.\<close>

definition process_data ::
  "env \<Rightarrow> 'a options_scheme \<Rightarrow> string \<Rightarrow> string \<Rightarrow> VlPgmImage \<Rightarrow> img_state \<Rightarrow> img_state" where
  "process_data E C path basename pim st =
     (case vl_sift_new E path (width pim) (height pim) (opt_O C) (opt_S C) (omin C) of
        None \<Rightarrow> st\<lparr>st_err_msg := snprintf_err_msg ''Could not allocate SIFT filter.'', st_err := Some VL_ERR_ALLOC\<rparr>
      | Some d \<Rightarrow>
          (case octave_loop E basename d (st\<lparr>st_filt := True\<rparr>) of
             Goto_done st' \<Rightarrow> st'
           | Break st' \<Rightarrow> write_meta path st'))"

text \<open>From \<^verbatim>\<open>Read image data\<close> on.\<close>

definition read_image ::
  "env \<Rightarrow> 'a options_scheme \<Rightarrow> string \<Rightarrow> string \<Rightarrow> img_state \<Rightarrow> img_state" where
  "read_image E C path basename st =
     (let (err, pim) = vl_pgm_extract_head E path in
      if err \<noteq> VL_ERR_OK
      then st\<lparr>st_err := Some VL_ERR_IO, st_err_msg := snprintf_err_msg ''PGM header corrputed.''\<rparr>
      else
        let st1 = st\<lparr>st_err := err, st_data := malloc_data E path, st_fdata := malloc_fdata E path\<rparr>
        in if \<not> st_data st1 \<or> \<not> st_fdata st1
           then st1\<lparr>st_err := Some VL_ERR_ALLOC,
                    st_err_msg := snprintf_err_msg ''Could not allocate enough memory.''\<rparr>
           else
             let err2 = vl_pgm_extract_data E path in
             if err2 \<noteq> VL_ERR_OK
             then st1\<lparr>st_err := err2, st_err_msg := snprintf_err_msg ''PGM body corrputed.''\<rparr>
             else process_data E C path basename pim (st1\<lparr>st_err := err2\<rparr>))"

text \<open>
  The three statements \<^verbatim>\<open>err = vl_file_meta_open (&dsc, basename, "w")\<close> and the like.
\<close>

definition open_dsc :: "env \<Rightarrow> string \<Rightarrow> img_state \<Rightarrow> img_state" where
  "open_dsc E basename st =
     (let (err, fm, ev) = vl_file_meta_open E DSC (dsc st) basename
      in st\<lparr>st_err := err, dsc := fm, st_out := st_out st @ ev\<rparr>)"

definition open_frm :: "env \<Rightarrow> string \<Rightarrow> img_state \<Rightarrow> img_state" where
  "open_frm E basename st =
     (let (err, fm, ev) = vl_file_meta_open E FRM (frm st) basename
      in st\<lparr>st_err := err, frm := fm, st_out := st_out st @ ev\<rparr>)"

definition open_met :: "env \<Rightarrow> string \<Rightarrow> img_state \<Rightarrow> img_state" where
  "open_met E basename st =
     (let (err, fm, ev) = vl_file_meta_open E MET (met st) basename
      in st\<lparr>st_err := err, met := fm, st_out := st_out st @ ev\<rparr>)"

text \<open>
  The macro \<^verbatim>\<open>WERR\<close>: the message with which it jumps to \<^verbatim>\<open>done\<close>, or \<open>None\<close> where
  it falls through.
\<close>

definition WERR :: "status \<Rightarrow> string \<Rightarrow> string option" where
  "WERR err nm =
     (if err = Some VL_ERR_OVERFLOW then Some (snprintf_err_msg ''Output file name too long.'')
      else if err \<noteq> VL_ERR_OK then Some (snprintf_err_msg (''Could not open '' @ quoted nm @ '' for writing.''))
      else None)"

text \<open>From \<^verbatim>\<open>open output files\<close> on.\<close>

definition open_output_files ::
  "env \<Rightarrow> 'a options_scheme \<Rightarrow> string \<Rightarrow> string \<Rightarrow> img_state \<Rightarrow> img_state" where
  "open_output_files E C path basename st =
     (let st1 = open_dsc E basename st
      in case WERR (st_err st1) (name (dsc st1)) of
           Some m \<Rightarrow> st1\<lparr>st_err_msg := m\<rparr>
         | None \<Rightarrow>
            (let st2 = open_frm E basename st1
             in case WERR (st_err st2) (name (frm st2)) of
                  Some m \<Rightarrow> st2\<lparr>st_err_msg := m\<rparr>
                | None \<Rightarrow>
                   (let st3 = open_met E basename st2
                    in case WERR (st_err st3) (name (met st3)) of
                         Some m \<Rightarrow> st3\<lparr>st_err_msg := m\<rparr>
                       | None \<Rightarrow> read_image E C path basename st3)))"

text \<open>
  The variables at the start of an iteration of the image loop, for the sinks \<open>K\<close> as
  the previous iteration left them: \<^verbatim>\<open>in\<close>, \<^verbatim>\<open>data\<close>, \<^verbatim>\<open>fdata\<close> and \<^verbatim>\<open>filt\<close> are
  null.
\<close>

definition image_start :: "sinks \<Rightarrow> img_state" where
  "image_start K =
     \<lparr>frm = frm K, dsc = dsc K, met = met K, gss = gss K, ifr = ifr K,
      st_err = VL_ERR_OK, st_err_msg = [],
      st_in = False, st_data = False, st_fdata = False, st_filt = False,
      st_out = []\<rparr>"

text \<open>
  The body of the image loop from its first statement to the label \<^verbatim>\<open>done\<close>, for the
  image \<open>path\<close> (\<^verbatim>\<open>name\<close> in the source). \<^verbatim>\<open>vl_string_basename\<close> returns the length
  of the base name, which must be less than the 1024 characters of the buffer.
\<close>

definition image_body :: "env \<Rightarrow> 'a options_scheme \<Rightarrow> string \<Rightarrow> sinks \<Rightarrow> img_state" where
  "image_body E C path K =
     (let st = image_start K;
          basename = vl_string_basename E path;
          q = length basename
      in if q \<ge> 1024
         then st\<lparr>st_err_msg := snprintf_err_msg (''Basename of '' @ quoted path @ '' is too long''),
                 st_err := Some VL_ERR_OVERFLOW\<rparr>
         else if \<not> fopen_r E path
         then st\<lparr>st_err := Some VL_ERR_IO,
                 st_err_msg := snprintf_err_msg (''Could not open '' @ quoted path @ '' for reading.'')\<rparr>
         else open_output_files E C path basename (st\<lparr>st_in := True\<rparr>))"

text \<open>The statement \<^verbatim>\<open>vl_file_meta_close (&...)\<close> for each of the four sinks.\<close>

definition close_frm :: "img_state \<Rightarrow> img_state" where
  "close_frm st =
     (let (fm, ev) = vl_file_meta_close FRM (frm st) in st\<lparr>frm := fm, st_out := st_out st @ ev\<rparr>)"

definition close_dsc :: "img_state \<Rightarrow> img_state" where
  "close_dsc st =
     (let (fm, ev) = vl_file_meta_close DSC (dsc st) in st\<lparr>dsc := fm, st_out := st_out st @ ev\<rparr>)"

definition close_met :: "img_state \<Rightarrow> img_state" where
  "close_met st =
     (let (fm, ev) = vl_file_meta_close MET (met st) in st\<lparr>met := fm, st_out := st_out st @ ev\<rparr>)"

definition close_gss :: "img_state \<Rightarrow> img_state" where
  "close_gss st =
     (let (fm, ev) = vl_file_meta_close GSS (gss st) in st\<lparr>gss := fm, st_out := st_out st @ ev\<rparr>)"

text \<open>
  The statements after the label \<^verbatim>\<open>done\<close>, up to the closing of the four sinks:
  \<^verbatim>\<open>filt\<close>, \<^verbatim>\<open>data\<close> and \<^verbatim>\<open>in\<close> are released if they are not null, then the four
  sinks are closed. (\<^verbatim>\<open>fdata\<close> is not mentioned there.)
\<close>

definition done_block :: "img_state \<Rightarrow> img_state" where
  "done_block st =
     close_gss (close_met (close_dsc (close_frm
       (st\<lparr>st_filt := False, st_data := False, st_in := False\<rparr>))))"

definition process_image :: "env \<Rightarrow> 'a options_scheme \<Rightarrow> string \<Rightarrow> sinks \<Rightarrow> img_state" where
  "process_image E C path K = done_block (image_body E C path K)"

subsection \<open>\<^verbatim>\<open>main\<close>: the image loop\<close>

text \<open>
  The loop \<^verbatim>\<open>while (argc--)\<close> over the file names. After the label \<^verbatim>\<open>done\<close> and the
  clean-up, an image whose \<^verbatim>\<open>err\<close> is set prints \<^verbatim>\<open>err_msg\<close> and the code on the
  error stream and sets \<^verbatim>\<open>exit_code\<close> to 1. The result is the final \<^verbatim>\<open>exit_code\<close>
  and the events of all iterations.
\<close>

definition after_image :: "img_state \<Rightarrow> sinks" where
  "after_image st = \<lparr>frm = frm st, dsc = dsc st, met = met st, gss = gss st, ifr = ifr st\<rparr>"

fun main_loop ::
  "env \<Rightarrow> 'a options_scheme \<Rightarrow> string list \<Rightarrow> sinks \<Rightarrow> int \<Rightarrow> int \<times> event list" where
  "main_loop E C [] K exit_code = (exit_code, [])"
| "main_loop E C (path # rest) K exit_code =
     (let st = process_image E C path K;
          bad = (st_err st \<noteq> VL_ERR_OK);
          ev = st_out st @ (if bad then [Stderr (st_err_msg st) (st_err st)] else []);
          (r, ev') = main_loop E C rest (after_image st) (if bad then 1 else exit_code)
      in (r, ev @ ev'))"

subsection \<open>\<^verbatim>\<open>main\<close>: option parsing\<close>

text \<open>
  One result of \<^verbatim>\<open>getopt_long\<close> other than \<open>-1\<close>: the value \<^verbatim>\<open>ch\<close> it returns, by the
  case of the \<^verbatim>\<open>switch\<close> that handles it, with \<^verbatim>\<open>optarg\<close> where the case reads it
  (\<open>None\<close> is the null pointer of an optional argument that is absent).
  \<open>Ch_default\<close> is any value handled by \<^verbatim>\<open>case 0: default:\<close>, such as
  \<^verbatim>\<open>opt_orientations\<close>.
\<close>

datatype getopt_result =
    Ch_invalid
  | Ch_missing
  | Ch_h
  | Ch_v
  | Opt_version
  | Opt_frames "string option"
  | Opt_descriptors "string option"
  | Opt_meta "string option"
  | Opt_read_frames "string option"
  | Opt_gss "string option"
  | Ch_O string
  | Ch_S string
  | Opt_first_octave string
  | Opt_edges_tresh string
  | Opt_peaks_tresh string
  | Ch_default

text \<open>
  How one pass through the \<^verbatim>\<open>switch\<close> ends: control returns to the loop test, or
  the process ends with \<^verbatim>\<open>exit\<close>, or \<^verbatim>\<open>assert (0)\<close> fails.
\<close>

datatype parse_result = Parsed options | Exited int | Aborted

text \<open>
  The macro \<^verbatim>\<open>ERR\<close>: sets \<^verbatim>\<open>err\<close>, formats the message into \<^verbatim>\<open>err_msg\<close> and leaves
  the \<^verbatim>\<open>switch\<close>.
\<close>

definition ERR :: "options \<Rightarrow> string \<Rightarrow> options" where
  "ERR ps msg = ps\<lparr>opt_err := Some VL_ERR_BAD_ARG, opt_err_msg := snprintf_err_msg msg\<rparr>"

text \<open>
  The \<^verbatim>\<open>switch (ch)\<close>. \<open>arg\<close> is \<^verbatim>\<open>argv [optind - 1]\<close>.
\<close>

fun parse_option :: "env \<Rightarrow> getopt_result \<Rightarrow> string \<Rightarrow> options \<Rightarrow> parse_result" where
  "parse_option E Ch_invalid arg ps = Parsed (ERR ps (''Invalid option '' @ quoted arg @ ''.''))"
| "parse_option E Ch_missing arg ps =
     Parsed (ERR ps (''Missing mandatory argument for option '' @ quoted arg @ ''.''))"
| "parse_option E Ch_h arg ps = Exited 0"
| "parse_option E Ch_v arg ps = Parsed (ps\<lparr>verbose := verbose ps + 1\<rparr>)"
| "parse_option E Opt_version arg ps = Exited 0"
| "parse_option E (Opt_frames optarg) arg ps =
     (let (err, fm) = vl_file_meta_parse E (frm ps) optarg;
          ps1 = ps\<lparr>frm := fm, opt_err := err\<rparr>
      in if err \<noteq> VL_ERR_OK
         then Parsed (ERR ps1 (''The arguments of '' @ quoted arg @ '' is invalid.''))
         else Parsed ps1)"
| "parse_option E (Opt_descriptors optarg) arg ps =
     (let (err, fm) = vl_file_meta_parse E (dsc ps) optarg;
          ps1 = ps\<lparr>dsc := fm, opt_err := err\<rparr>
      in if err \<noteq> VL_ERR_OK
         then Parsed (ERR ps1 (''The arguments of '' @ quoted arg @ '' is invalid.''))
         else Parsed ps1)"
| "parse_option E (Opt_meta optarg) arg ps =
     (let (err, fm) = vl_file_meta_parse E (met ps) optarg;
          ps1 = ps\<lparr>met := fm, opt_err := err\<rparr>
      in if err \<noteq> VL_ERR_OK
         then Parsed (ERR ps1 (''The arguments of '' @ quoted arg @ '' is invalid.''))
         else if protocol (met ps1) \<noteq> VL_PROT_ASCII
         then Parsed (ERR ps1 ''meta file supports only ASCII protocol'')
         else Parsed ps1)"
| "parse_option E (Opt_read_frames optarg) arg ps =
     (let (err, fm) = vl_file_meta_parse E (ifr ps) optarg;
          ps1 = ps\<lparr>ifr := fm, opt_err := err\<rparr>
      in if err \<noteq> VL_ERR_OK
         then Parsed (ERR ps1 (''The arguments of '' @ quoted arg @ '' is invalid.''))
         else Parsed ps1)"
| "parse_option E (Opt_gss optarg) arg ps =
     (let (err, fm) = vl_file_meta_parse E (gss ps) optarg;
          ps1 = ps\<lparr>gss := fm, opt_err := err\<rparr>
      in if err \<noteq> VL_ERR_OK
         then Parsed (ERR ps1 (''The arguments of '' @ quoted arg @ '' is invalid.''))
         else Parsed ps1)"
| "parse_option E (Ch_O optarg) arg ps =
     (let (n, v) = sscanf_d E optarg (opt_O ps);
          ps1 = ps\<lparr>opt_O := v\<rparr>
      in if n = 0 \<or> v < 0
         then Parsed (ERR ps1 (''The argument of '' @ quoted arg @ '' must be a non-negative integer.''))
         else Parsed ps1)"
| "parse_option E (Ch_S optarg) arg ps =
     (let (n, v) = sscanf_d E optarg (opt_S ps);
          ps1 = ps\<lparr>opt_S := v\<rparr>
      in if n = 0 \<or> v < 0
         then Parsed (ERR ps1 (''The argument of '' @ quoted arg @ '' must be a non-negative integer.''))
         else Parsed ps1)"
| "parse_option E (Opt_first_octave optarg) arg ps =
     (let (n, v) = sscanf_d E optarg (omin ps);
          ps1 = ps\<lparr>omin := v\<rparr>
      in if n = 0 \<or> v < 0
         then Parsed (ERR ps1 (''The argument of '' @ quoted arg @ '' must be a non-negative integer.''))
         else Parsed ps1)"
| "parse_option E (Opt_edges_tresh optarg) arg ps =
     (let (n, v) = sscanf_lf E optarg (edges_tresh ps);
          ps1 = ps\<lparr>edges_tresh := v\<rparr>
      in if n = 0 \<or> v < 0
         then Parsed (ERR ps1 (''The argument of '' @ quoted arg @ '' must be a non-negative float.''))
         else Parsed ps1)"
| "parse_option E (Opt_peaks_tresh optarg) arg ps =
     (let (n, v) = sscanf_lf E optarg (peaks_tresh ps);
          ps1 = ps\<lparr>peaks_tresh := v\<rparr>
      in if n = 0 \<or> v < 0
         then Parsed (ERR ps1 (''The argument of '' @ quoted arg @ '' must be a non-negative float.''))
         else Parsed ps1)"
| "parse_option E Ch_default arg ps = Aborted"

text \<open>
  The loop \<^verbatim>\<open>while (!err)\<close> over the results of \<^verbatim>\<open>getopt_long\<close>, each paired with
  \<^verbatim>\<open>argv [optind - 1]\<close>; at the end of the list \<^verbatim>\<open>getopt_long\<close> returns \<open>-1\<close>.
\<close>

fun parse_options :: "env \<Rightarrow> (getopt_result \<times> string) list \<Rightarrow> options \<Rightarrow> parse_result" where
  "parse_options E [] ps = Parsed ps"
| "parse_options E ((ch, arg) # rest) ps =
     (if opt_err ps \<noteq> VL_ERR_OK then Parsed ps
      else case parse_option E ch arg ps of
             Parsed ps1 \<Rightarrow> parse_options E rest ps1
           | Exited c \<Rightarrow> Exited c
           | Aborted \<Rightarrow> Aborted)"

text \<open>How the process ends: with an exit status, after the events, or in \<^verbatim>\<open>abort\<close>.\<close>

datatype outcome = Exit int "event list" | Abort

text \<open>
  \<^verbatim>\<open>main\<close>, for the results \<open>opts\<close> of \<^verbatim>\<open>getopt_long\<close> and the remaining arguments
  \<open>files\<close>: a parsing error prints \<^verbatim>\<open>err_msg\<close> and the code on the error stream and
  ends the process with status 1 before the image loop; otherwise the process returns
  the \<^verbatim>\<open>exit_code\<close> of the image loop.
\<close>

definition sinks_of :: "options \<Rightarrow> sinks" where
  "sinks_of ps = \<lparr>frm = frm ps, dsc = dsc ps, met = met ps, gss = gss ps, ifr = ifr ps\<rparr>"

definition main :: "env \<Rightarrow> (getopt_result \<times> string) list \<Rightarrow> string list \<Rightarrow> outcome" where
  "main E opts files =
     (case parse_options E opts initial_options of
        Exited c \<Rightarrow> Exit c []
      | Aborted \<Rightarrow> Abort
      | Parsed ps \<Rightarrow>
          if opt_err ps \<noteq> VL_ERR_OK
          then Exit 1 [Stderr (opt_err_msg ps) (opt_err ps)]
          else let (exit_code, ev) = main_loop E ps files (sinks_of ps) 0
               in Exit exit_code ev)"

section \<open>Observations on a run\<close>

text \<open>The sink an event acts on; the error stream is no sink.\<close>

primrec event_sink :: "event \<Rightarrow> sink_id option" where
  "event_sink (Fopen i p) = Some i"
| "event_sink (Fprintf i l) = Some i"
| "event_sink (Pgm_insert i pim buffer) = Some i"
| "event_sink (Fclose i) = Some i"
| "event_sink (Stderr m e) = None"

text \<open>The lines written to sink \<open>i\<close>, in order.\<close>

fun written :: "sink_id \<Rightarrow> event list \<Rightarrow> out_line list" where
  "written i [] = []"
| "written i (Fprintf j l # es) = (if j = i then l # written i es else written i es)"
| "written i (e # es) = written i es"

text \<open>The states of the images of a batch at the end of their iterations, in order.\<close>

fun image_states :: "env \<Rightarrow> 'a options_scheme \<Rightarrow> string list \<Rightarrow> sinks \<Rightarrow> img_state list" where
  "image_states E C [] K = []"
| "image_states E C (path # rest) K =
     (let st = process_image E C path K in st # image_states E C rest (after_image st))"


text \<open>The sink variable of \<^verbatim>\<open>main\<close> an identifier stands for.\<close>

primrec sink_of :: "sink_id \<Rightarrow> 'a sinks_scheme \<Rightarrow> VlFileMeta" where
  "sink_of FRM K = frm K"
| "sink_of DSC K = dsc K"
| "sink_of MET K = met K"
| "sink_of GSS K = gss K"

text \<open>The lines of the meta block that report the descriptors and the frames sink.\<close>

fun mentions :: "sink_id \<Rightarrow> event \<Rightarrow> bool" where
  "mentions i (Fprintf j (Meta_descriptors n)) = (i = DSC)"
| "mentions i (Fprintf j (Meta_frames n)) = (i = FRM)"
| "mentions i e = False"

text \<open>An event opens, writes or closes sink \<open>i\<close>, or reports it in the meta block.\<close>

definition touches :: "sink_id \<Rightarrow> event \<Rightarrow> bool" where
  "touches i e \<longleftrightarrow> event_sink e = Some i \<or> mentions i e"

text \<open>
  Sink \<open>i\<close> is inactive and not open, and no event so far has touched it: for the
  sinks between two images, and for the state within an image.
\<close>

definition quiet_sinks :: "sink_id \<Rightarrow> sinks \<Rightarrow> bool" where
  "quiet_sinks i K \<longleftrightarrow> \<not> active (sink_of i K) \<and> fm_file (sink_of i K) = None"

definition quiet :: "sink_id \<Rightarrow> img_state \<Rightarrow> bool" where
  "quiet i st \<longleftrightarrow>
     \<not> active (sink_of i st) \<and> fm_file (sink_of i st) = None \<and>
     (\<forall>e \<in> set (st_out st). \<not> touches i e)"

text \<open>The events of \<^verbatim>\<open>save_gss\<close>: opening, writing an image to and closing the gss sink.\<close>

fun gss_event :: "event \<Rightarrow> bool" where
  "gss_event (Fopen i p) = (i = GSS)"
| "gss_event (Pgm_insert i pim buffer) = (i = GSS)"
| "gss_event (Fclose i) = (i = GSS)"
| "gss_event e = False"

text \<open>
  The contents of \<^verbatim>\<open>tmp\<close>, \<^verbatim>\<open>pim\<close> and \<^verbatim>\<open>buffer\<close> in \<^verbatim>\<open>save_gss\<close> at level \<open>s\<close>.
\<close>

definition gss_tmp :: "string \<Rightarrow> VlSiftFilt \<Rightarrow> int \<Rightarrow> string" where
  "gss_tmp basename filt s =
     basename @ take (1024 - length basename - 1) (gss_suffix (filt_o_cur filt) s)"

definition gss_pim :: "VlSiftFilt \<Rightarrow> VlPgmImage" where
  "gss_pim filt =
     \<lparr>width = octave_width filt, height = octave_height filt, max_value = 255, is_raw = 1\<rparr>"

definition gss_buffer :: "VlSiftFilt \<Rightarrow> int \<Rightarrow> 8 word list" where
  "gss_buffer filt s =
     map (\<lambda>i. to_uint8 (octave filt s i)) [0 ..< nat (octave_width filt * octave_height filt)]"

text \<open>The options that configure a sink.\<close>

fun sink_flag :: "getopt_result \<Rightarrow> bool" where
  "sink_flag (Opt_frames optarg) = True"
| "sink_flag (Opt_descriptors optarg) = True"
| "sink_flag (Opt_meta optarg) = True"
| "sink_flag (Opt_read_frames optarg) = True"
| "sink_flag (Opt_gss optarg) = True"
| "sink_flag ch = False"

text \<open>
  What one iteration of the image loop contributes to the events of the run: the
  events of the image, then the diagnostic if \<^verbatim>\<open>err\<close> is set.
\<close>

definition image_events :: "img_state \<Rightarrow> event list" where
  "image_events st =
     st_out st @ (if st_err st \<noteq> VL_ERR_OK then [Stderr (st_err_msg st) (st_err st)] else [])"

text \<open>
  The number of (keypoint, orientation) pairs of one octave, and of all the octaves the
  detector processes for an image.
\<close>

definition orientation_count :: "VlSiftFilt \<Rightarrow> nat" where
  "orientation_count filt =
     sum_list (map (\<lambda>k. length (orientations filt k)) [0 ..< length (keypoints filt)])"

fun detections :: "detector \<Rightarrow> nat" where
  "detections (NoMore e) = 0"
| "detections (Octave filt d) = orientation_count filt + detections d"

text \<open>The detector \<^verbatim>\<open>main\<close> builds for an image, from the header it has read.\<close>

definition image_detector :: "env \<Rightarrow> 'a options_scheme \<Rightarrow> string \<Rightarrow> detector option" where
  "image_detector E C path =
     (let pim = snd (vl_pgm_extract_head E path)
      in vl_sift_new E path (width pim) (height pim) (opt_O C) (opt_S C) (omin C))"

text \<open>
  The three events of one level of a successful snapshot: the per-level file is opened
  on the path the sink's pattern gives for the base name extended with the suffix of
  the level, the narrowed plane is written, and the file is closed.
\<close>

definition gss_level_events :: "VlFileMeta \<Rightarrow> string \<Rightarrow> VlSiftFilt \<Rightarrow> int \<Rightarrow> event list" where
  "gss_level_events fm basename filt s =
     [Fopen GSS (resolve (pattern fm) (basename @ gss_suffix (filt_o_cur filt) s)),
      Pgm_insert GSS
        \<lparr>width = octave_width filt, height = octave_height filt, max_value = 255, is_raw = 1\<rparr>
        (map (\<lambda>i. to_uint8 (octave filt s i)) [0 ..< nat (octave_width filt * octave_height filt)]),
      Fclose GSS]"

text \<open>The file of level \<open>s\<close> can be opened and written.\<close>

definition gss_level_ok :: "env \<Rightarrow> VlFileMeta \<Rightarrow> string \<Rightarrow> VlSiftFilt \<Rightarrow> int \<Rightarrow> bool" where
  "gss_level_ok E fm basename filt s \<longleftrightarrow>
     length basename + length (gss_suffix (filt_o_cur filt) s) < 1024 \<and>
     length (resolve (pattern fm) (basename @ gss_suffix (filt_o_cur filt) s)) \<le> name_max E \<and>
     fopen_w E (resolve (pattern fm) (basename @ gss_suffix (filt_o_cur filt) s)) \<and>
     pgm_insert E (resolve (pattern fm) (basename @ gss_suffix (filt_o_cur filt) s)) = VL_ERR_OK"

text \<open>
  The number of times a run opens and closes the file of sink \<open>i\<close>, and the relation
  between them within one image: every file opened on the sink has been closed, except
  the one the sink holds open.
\<close>

fun is_open :: "sink_id \<Rightarrow> event \<Rightarrow> bool" where
  "is_open i (Fopen j p) = (j = i)"
| "is_open i e = False"

fun is_close :: "sink_id \<Rightarrow> event \<Rightarrow> bool" where
  "is_close i (Fclose j) = (j = i)"
| "is_close i e = False"

definition opens :: "sink_id \<Rightarrow> event list \<Rightarrow> nat" where
  "opens i ev = length (filter (is_open i) ev)"

definition closes :: "sink_id \<Rightarrow> event list \<Rightarrow> nat" where
  "closes i ev = length (filter (is_close i) ev)"

definition balanced :: "sink_id \<Rightarrow> img_state \<Rightarrow> bool" where
  "balanced i st \<longleftrightarrow>
     opens i (st_out st) = closes i (st_out st) + (if fm_file (sink_of i st) = None then 0 else 1)"

text \<open>The four output sinks are not open.\<close>

definition closed_sinks :: "'a sinks_scheme \<Rightarrow> bool" where
  "closed_sinks K \<longleftrightarrow>
     fm_file (frm K) = None \<and> fm_file (dsc K) = None \<and>
     fm_file (met K) = None \<and> fm_file (gss K) = None"

subsection \<open>Example runs\<close>

text \<open>
  An octave of two levels of 2 by 1 samples with two keypoints, the first with one
  orientation and the second with two.
\<close>

definition ex_filt :: VlSiftFilt where
  "ex_filt =
     \<lparr>filt_S = 2, filt_o_cur = 0, octave_width = 2, octave_height = 1,
      octave = (\<lambda>s i. 300 + of_int s),
      keypoints = [\<lparr>kx = 1, ky = 2, ksigma = 3\<rparr>, \<lparr>kx = 4, ky = 5, ksigma = 6\<rparr>],
      orientations = (\<lambda>k. if k = 0 then [10] else [20, 30]),
      descriptor = (\<lambda>k a i. 0),
      gss_malloc = True, gss_result = None\<rparr>"

text \<open>
  An environment in which every call succeeds, except that the file
  \<^verbatim>\<open>missing.pgm\<close> cannot be opened for reading; every image has the one octave above.
\<close>

definition ex_env :: env where
  "ex_env =
     \<lparr>name_max = 1023, fopen_w = (\<lambda>p. True), pgm_insert = (\<lambda>p. None),
      vl_string_basename = takeWhile (\<lambda>c. c \<noteq> CHR ''.''),
      fopen_r = (\<lambda>p. p \<noteq> ''missing.pgm''),
      vl_pgm_extract_head =
        (\<lambda>p. (None, \<lparr>width = 2, height = 1, max_value = 255, is_raw = 1\<rparr>)),
      malloc_data = (\<lambda>p. True), malloc_fdata = (\<lambda>p. True),
      vl_pgm_extract_data = (\<lambda>p. None),
      vl_sift_new = (\<lambda>p w h O' S' om. Some (Octave ex_filt (NoMore VL_ERR_EOF))),
      vl_file_meta_parse = (\<lambda>fm optarg. (None, fm\<lparr>active := True\<rparr>)),
      sscanf_d = (\<lambda>s old. (0, old)), sscanf_lf = (\<lambda>s old. (0, old))\<rparr>"

text \<open>The same octave when \<^verbatim>\<open>malloc\<close> fails in \<^verbatim>\<open>save_gss\<close>.\<close>

definition ex_filt_nomem :: VlSiftFilt where
  "ex_filt_nomem = ex_filt\<lparr>gss_malloc := False\<rparr>"

definition ex_env_nomem :: env where
  "ex_env_nomem =
     ex_env\<lparr>vl_sift_new := (\<lambda>p w h O' S' om. Some (Octave ex_filt_nomem (NoMore VL_ERR_EOF)))\<rparr>"

text \<open>
  An environment in which the detector fails with \<^verbatim>\<open>VL_ERR_ALLOC\<close> when it is
  advanced to the second octave.
\<close>

definition ex_env_detfail :: env where
  "ex_env_detfail =
     ex_env\<lparr>vl_sift_new := (\<lambda>p w h O' S' om. Some (Octave ex_filt (NoMore VL_ERR_ALLOC)))\<rparr>"

text \<open>
  An environment in which no PGM image can be written, and the sinks of a run with
  \<^verbatim>\<open>--gss\<close>.
\<close>

definition ex_env_diskfull :: env where
  "ex_env_diskfull = ex_env\<lparr>pgm_insert := (\<lambda>p. Some VL_ERR_IO)\<rparr>"

definition ex_sinks_gss :: sinks where
  "ex_sinks_gss = (sinks_of initial_options)\<lparr>gss := (gss initial_options)\<lparr>active := True\<rparr>\<rparr>"

text \<open>The sinks of a run with only the descriptors sink active.\<close>

definition ex_sinks_descr :: sinks where
  "ex_sinks_descr =
     (sinks_of initial_options)
       \<lparr>frm := (frm initial_options)\<lparr>active := False\<rparr>,
        dsc := (dsc initial_options)\<lparr>active := True\<rparr>\<rparr>"

text \<open>An environment whose sink specifications select a binary protocol.\<close>

definition ex_env_binary :: env where
  "ex_env_binary =
     ex_env\<lparr>vl_file_meta_parse :=
       (\<lambda>fm optarg. (None, fm\<lparr>active := True, protocol := VL_PROT_BINARY_LE\<rparr>))\<rparr>"

section \<open>Properties\<close>

subsection \<open>Lines written to a sink\<close>

lemma written_append: "written i (xs @ ys) = written i xs @ written i ys"
  by (induction i xs rule: written.induct) auto

lemma written_emit_record_FRM:
  "written FRM (emit_record K filt k a) =
     (if active (frm K)
      then [Frame (kx (keypoints filt ! 0)) (ky (keypoints filt ! 0)) (ksigma (keypoints filt ! 0)) a]
      else [])"
  by (simp add: emit_record_def Let_def)

text \<open>
  C1. During the detection pass of an octave, the records written to the frames sink
  are, for each keypoint index \<open>k\<close> in order and each of its orientations in order,
  the x, y and sigma of element 0 of the keypoint list together with that
  orientation's angle: the coordinates never depend on \<open>k\<close>.
\<close>

theorem frames_records_first_keypoint:
  "written FRM (emit_keypoints K filt) =
     (if active (frm K)
      then concat (map (\<lambda>k. map (Frame (kx (keypoints filt ! 0)) (ky (keypoints filt ! 0))
                                        (ksigma (keypoints filt ! 0)))
                                 (orientations filt k))
                   [0 ..< length (keypoints filt)])
      else [])"
proof -
  have kp: "written FRM (concat (map (emit_record K filt k) angles)) =
      (if active (frm K)
       then map (Frame (kx (keypoints filt ! 0)) (ky (keypoints filt ! 0))
                       (ksigma (keypoints filt ! 0))) angles
       else [])" for k angles
    by (induction angles) (simp_all add: written_append written_emit_record_FRM)
  have "written FRM (concat (map (emit_keypoint K filt) ks)) =
      (if active (frm K)
       then concat (map (\<lambda>k. map (Frame (kx (keypoints filt ! 0)) (ky (keypoints filt ! 0))
                                        (ksigma (keypoints filt ! 0)))
                                  (orientations filt k)) ks)
       else [])" for ks
    by (induction ks) (simp_all add: written_append emit_keypoint_def kp)
  then show ?thesis
    by (simp add: emit_keypoints_def)
qed

text \<open>
  In the example octave the second keypoint is at (4, 5, 6), and its two records carry
  (1, 2, 3), the coordinates of the first.
\<close>

theorem frames_records_first_keypoint_witness:
  "written FRM (emit_keypoints initial_options ex_filt) =
     [Frame 1 2 3 10, Frame 1 2 3 20, Frame 1 2 3 30]"
  using frames_records_first_keypoint [of initial_options ex_filt]
  by (simp add: initial_options_def ex_filt_def upt_rec [of _ 2])

subsection \<open>The status of \<^verbatim>\<open>save_gss\<close>\<close>

text \<open>
  C2. For an active sink the value the caller of \<^verbatim>\<open>save_gss\<close> reads is the
  indeterminate one, whatever the local \<^verbatim>\<open>err\<close> holds at the label
  \<^verbatim>\<open>save_gss_quit\<close>: the function has no \<^verbatim>\<open>return err\<close>.
\<close>

theorem save_gss_status_not_returned:
  "active fm \<Longrightarrow> fst (save_gss E filt fm basename) = gss_result filt"
  by (simp add: save_gss_def split: prod.splits)

text \<open>
  When the buffer cannot be allocated the local \<^verbatim>\<open>err\<close> is \<^verbatim>\<open>VL_ERR_ALLOC\<close>, and the
  caller reads \<^verbatim>\<open>VL_ERR_OK\<close> where the indeterminate value is zero: the run with
  \<^verbatim>\<open>--gss\<close> then writes no snapshot, prints no diagnostic and exits with status 0.
\<close>

theorem save_gss_status_not_returned_witness:
  "active (gss initial_options\<lparr>active := True\<rparr>) \<and>
   fst (save_gss_body ex_env ex_filt_nomem (gss initial_options\<lparr>active := True\<rparr>) ''a'' None)
     = Some VL_ERR_ALLOC \<and>
   fst (save_gss ex_env ex_filt_nomem (gss initial_options\<lparr>active := True\<rparr>) ''a'') = VL_ERR_OK \<and>
   main ex_env_nomem [(Opt_gss None, ''--gss'')] [''a.pgm''] =
     Exit 0 [Fopen FRM ''a.frame'', Fprintf FRM (Frame 1 2 3 10), Fprintf FRM (Frame 1 2 3 20),
             Fprintf FRM (Frame 1 2 3 30), Fclose FRM]"
proof -
  have run: "main ex_env_nomem [(Opt_gss None, ''--gss'')] [''a.pgm''] =
     Exit 0 [Fopen FRM ''a.frame'', Fprintf FRM (Frame 1 2 3 10), Fprintf FRM (Frame 1 2 3 20),
             Fprintf FRM (Frame 1 2 3 30), Fclose FRM]"
    by code_simp
  from save_gss_status_not_returned
    [of "gss initial_options\<lparr>active := True\<rparr>" ex_env ex_filt_nomem "''a''"] run
  show ?thesis
    by (simp add: initial_options_def save_gss_body_def ex_filt_nomem_def ex_filt_def VL_ERR_OK_def)
qed

subsection \<open>Release of the resources of an image\<close>


subsection \<open>The file-meta helpers and \<^verbatim>\<open>save_gss\<close>\<close>

lemma open_active [simp]: "active (fst (snd (vl_file_meta_open E i fm b))) = active fm"
  by (simp add: vl_file_meta_open_def Let_def)

lemma open_inactive: "\<not> active fm \<Longrightarrow> vl_file_meta_open E i fm b = (VL_ERR_OK, fm, [])"
  by (simp add: vl_file_meta_open_def)

lemma open_events: "e \<in> set (snd (snd (vl_file_meta_open E i fm b))) \<Longrightarrow> \<exists>p. e = Fopen i p"
  by (simp add: vl_file_meta_open_def Let_def split: if_splits)

lemma close_active [simp]: "active (fst (vl_file_meta_close i fm)) = active fm"
  by (simp add: vl_file_meta_close_def split: option.splits)

lemma close_closed [simp]: "fm_file (fst (vl_file_meta_close i fm)) = None"
  by (simp add: vl_file_meta_close_def split: option.splits)

lemma close_None: "fm_file fm = None \<Longrightarrow> vl_file_meta_close i fm = (fm, [])"
  by (simp add: vl_file_meta_close_def)

lemma close_events: "e \<in> set (snd (vl_file_meta_close i fm)) \<Longrightarrow> e = Fclose i"
  by (simp add: vl_file_meta_close_def split: option.splits)

lemma insert_events:
  "e \<in> set (snd (vl_pgm_insert E i fm pim buf)) \<Longrightarrow> e = Pgm_insert i pim buf"
  by (simp add: vl_pgm_insert_def split: option.splits)

lemma gss_levels_done:
  "\<not> s < filt_S filt \<Longrightarrow> gss_levels E filt basename s err fm = (err, fm, [])"
  by (simp add: gss_levels.simps)

lemma gss_levels_step:
  "s < filt_S filt \<Longrightarrow>
   gss_levels E filt basename s err fm =
     (let op = vl_file_meta_open E GSS fm (gss_tmp basename filt s) in
      if fst op \<noteq> VL_ERR_OK then op
      else
        let ins = vl_pgm_insert E GSS (fst (snd op)) (gss_pim filt) (gss_buffer filt s) in
        if fst ins \<noteq> VL_ERR_OK then (fst ins, fst (snd op), snd (snd op) @ snd ins)
        else
          let cl = vl_file_meta_close GSS (fst (snd op));
              r = gss_levels E filt basename (s + 1) (fst ins) (fst cl)
          in (fst r, fst (snd r), snd (snd op) @ snd ins @ snd cl @ snd (snd r)))"
  by (subst gss_levels.simps)
     (simp add: Let_def gss_tmp_def gss_pim_def gss_buffer_def split: prod.splits)

lemma gss_levels_props:
  "active (fst (snd (gss_levels E filt basename s err fm))) = active fm \<and>
   (\<forall>e\<in>set (snd (snd (gss_levels E filt basename s err fm))). gss_event e)"
proof (induction "nat (filt_S filt - s)" arbitrary: s err fm)
  case 0
  then show ?case by (simp add: gss_levels_done)
next
  case (Suc n)
  from Suc.hyps(2) have lt: "s < filt_S filt" and n: "n = nat (filt_S filt - (s + 1))" by auto
  show ?case
    using Suc.hyps(1) [OF n]
    by (auto simp: gss_levels_step [OF lt] Let_def
        dest!: open_events close_events insert_events)
qed

lemma save_gss_inactive: "\<not> active fm \<Longrightarrow> save_gss E filt fm basename = (VL_ERR_OK, fm, [])"
  by (simp add: save_gss_def)

lemma save_gss_body_props:
  "active (fst (snd (save_gss_body E filt fm basename err))) = active fm \<and>
   (\<forall>e\<in>set (snd (snd (save_gss_body E filt fm basename err))). gss_event e)"
  using gss_levels_props [of E filt basename 0 err fm]
  by (simp add: save_gss_body_def)

lemma save_gss_active [simp]: "active (fst (snd (save_gss E filt fm basename))) = active fm"
  by (simp add: save_gss_def split_def Let_def save_gss_body_props)

lemma save_gss_closed:
  "active fm \<Longrightarrow> fm_file (fst (snd (save_gss E filt fm basename))) = None"
  by (simp add: save_gss_def split_def Let_def)

lemma save_gss_status: "active fm \<Longrightarrow> fst (save_gss E filt fm basename) = gss_result filt"
  by (simp add: save_gss_def split_def Let_def)

lemma save_gss_events:
  "e \<in> set (snd (snd (save_gss E filt fm basename))) \<Longrightarrow> gss_event e"
  using save_gss_body_props [of E filt fm basename "gss_result filt"]
  by (auto simp: save_gss_def split_def Let_def split: if_splits dest!: close_events)

lemma gss_event_sink: "gss_event e \<Longrightarrow> event_sink e = Some GSS \<and> (\<forall>i. \<not> mentions i e)"
  by (cases e) auto

lemma emit_record_events:
  "e \<in> set (emit_record K filt k a) \<Longrightarrow>
     (active (frm K) \<and> (\<exists>x y s. e = Fprintf FRM (Frame x y s a))) \<or>
     (active (dsc K) \<and> (\<exists>v. e = Fprintf DSC (Descr v)))"
  by (auto simp: emit_record_def Let_def split: if_splits)

lemma emit_keypoints_events:
  "e \<in> set (emit_keypoints K filt) \<Longrightarrow>
     (active (frm K) \<and> (\<exists>x y s a. e = Fprintf FRM (Frame x y s a))) \<or>
     (active (dsc K) \<and> (\<exists>v. e = Fprintf DSC (Descr v)))"
  by (auto simp: emit_keypoints_def emit_keypoint_def dest!: emit_record_events)

subsection \<open>A sink that is inactive and closed stays untouched\<close>

lemma sink_of_update [simp]:
  "sink_of i (st\<lparr>st_err := e\<rparr>) = sink_of i st"
  "sink_of i (st\<lparr>st_err_msg := m\<rparr>) = sink_of i st"
  "sink_of i (st\<lparr>st_in := b\<rparr>) = sink_of i st"
  "sink_of i (st\<lparr>st_data := b\<rparr>) = sink_of i st"
  "sink_of i (st\<lparr>st_fdata := b\<rparr>) = sink_of i st"
  "sink_of i (st\<lparr>st_filt := b\<rparr>) = sink_of i st"
  "sink_of i (st\<lparr>st_out := ev\<rparr>) = sink_of i st"
  by (cases i, simp_all)+

lemma quiet_update [simp]:
  "quiet i (st\<lparr>st_err := e\<rparr>) = quiet i st"
  "quiet i (st\<lparr>st_err_msg := m\<rparr>) = quiet i st"
  "quiet i (st\<lparr>st_in := b\<rparr>) = quiet i st"
  "quiet i (st\<lparr>st_data := b\<rparr>) = quiet i st"
  "quiet i (st\<lparr>st_fdata := b\<rparr>) = quiet i st"
  "quiet i (st\<lparr>st_filt := b\<rparr>) = quiet i st"
  by (simp_all add: quiet_def)

lemma snapshot_octave_quiet: "quiet i st \<Longrightarrow> quiet i (snapshot_octave E basename filt st)"
  by (cases i)
     (auto simp: quiet_def snapshot_octave_def split_def Let_def touches_def
       dest!: save_gss_events gss_event_sink)

lemma detect_and_emit_quiet: "quiet i st \<Longrightarrow> quiet i (detect_and_emit filt st)"
  by (cases i)
     (auto simp: quiet_def detect_and_emit_def touches_def dest!: emit_keypoints_events)

lemma octave_loop_quiet:
  "quiet i st \<Longrightarrow>
   octave_loop E basename d st = Break st' \<or> octave_loop E basename d st = Goto_done st' \<Longrightarrow>
   quiet i st'"
proof (induction d arbitrary: st)
  case (NoMore e)
  then show ?case by auto
next
  case (Octave filt d)
  let ?st1 = "snapshot_octave E basename filt (st\<lparr>st_err := VL_ERR_OK\<rparr>)"
  have q1: "quiet i ?st1"
    using Octave.prems(1) by (simp add: snapshot_octave_quiet)
  show ?case
  proof (cases "st_err ?st1 \<noteq> VL_ERR_OK")
    case True
    with Octave.prems(2) q1 show ?thesis by (auto simp: Let_def)
  next
    case False
    with Octave.prems(2)
    have "octave_loop E basename d (detect_and_emit filt ?st1) = Break st' \<or>
          octave_loop E basename d (detect_and_emit filt ?st1) = Goto_done st'"
      by (simp add: Let_def)
    from Octave.IH [OF detect_and_emit_quiet [OF q1] this] show ?thesis .
  qed
qed

lemma write_meta_quiet: "quiet i st \<Longrightarrow> quiet i (write_meta path st)"
  by (cases i) (auto simp: quiet_def write_meta_def touches_def)

lemma process_data_quiet:
  assumes "quiet i st"
  shows "quiet i (process_data E C path basename pim st)"
proof (cases "vl_sift_new E path (width pim) (height pim) (opt_O C) (opt_S C) (omin C)")
  case None
  with assms show ?thesis by (simp add: process_data_def)
next
  case (Some d)
  from assms have q: "quiet i (st\<lparr>st_filt := True\<rparr>)" by simp
  show ?thesis
  proof (cases "octave_loop E basename d (st\<lparr>st_filt := True\<rparr>)")
    case (Break st')
    with octave_loop_quiet [OF q] have "quiet i st'" by blast
    with Some Break show ?thesis by (simp add: process_data_def write_meta_quiet)
  next
    case (Goto_done st')
    with octave_loop_quiet [OF q] have "quiet i st'" by blast
    with Some Goto_done show ?thesis by (simp add: process_data_def)
  qed
qed

lemma read_image_quiet:
  "quiet i st \<Longrightarrow> quiet i (read_image E C path basename st)"
  by (simp add: read_image_def split_def Let_def process_data_quiet)

lemma open_dsc_quiet: "quiet i st \<Longrightarrow> quiet i (open_dsc E b st)"
  by (cases i)
     (auto simp: open_dsc_def split_def Let_def quiet_def touches_def open_inactive
       dest!: open_events)

lemma open_frm_quiet: "quiet i st \<Longrightarrow> quiet i (open_frm E b st)"
  by (cases i)
     (auto simp: open_frm_def split_def Let_def quiet_def touches_def open_inactive
       dest!: open_events)

lemma open_met_quiet: "quiet i st \<Longrightarrow> quiet i (open_met E b st)"
  by (cases i)
     (auto simp: open_met_def split_def Let_def quiet_def touches_def open_inactive
       dest!: open_events)

lemma open_output_files_quiet:
  "quiet i st \<Longrightarrow> quiet i (open_output_files E C path basename st)"
  by (simp add: open_output_files_def Let_def read_image_quiet open_dsc_quiet open_frm_quiet
      open_met_quiet split: option.splits)

lemma image_start_quiet: "quiet_sinks i K \<Longrightarrow> quiet i (image_start K)"
  by (cases i) (simp_all add: quiet_def quiet_sinks_def image_start_def)

lemma image_body_quiet:
  "quiet_sinks i K \<Longrightarrow> quiet i (image_body E C path K)"
  by (simp add: image_body_def Let_def open_output_files_quiet image_start_quiet)

lemma close_frm_quiet: "quiet i st \<Longrightarrow> quiet i (close_frm st)"
  by (cases i)
     (auto simp: close_frm_def split_def Let_def quiet_def touches_def close_None dest!: close_events)

lemma close_dsc_quiet: "quiet i st \<Longrightarrow> quiet i (close_dsc st)"
  by (cases i)
     (auto simp: close_dsc_def split_def Let_def quiet_def touches_def close_None dest!: close_events)

lemma close_met_quiet: "quiet i st \<Longrightarrow> quiet i (close_met st)"
  by (cases i)
     (auto simp: close_met_def split_def Let_def quiet_def touches_def close_None dest!: close_events)

lemma close_gss_quiet: "quiet i st \<Longrightarrow> quiet i (close_gss st)"
  by (cases i)
     (auto simp: close_gss_def split_def Let_def quiet_def touches_def close_None dest!: close_events)

lemma done_block_quiet: "quiet i st \<Longrightarrow> quiet i (done_block st)"
  by (simp add: done_block_def close_frm_quiet close_dsc_quiet close_met_quiet close_gss_quiet)

lemma process_image_quiet:
  "quiet_sinks i K \<Longrightarrow> quiet i (process_image E C path K)"
  by (simp add: process_image_def done_block_quiet image_body_quiet)

lemma after_image_quiet: "quiet i st \<Longrightarrow> quiet_sinks i (after_image st)"
  by (cases i) (simp_all add: quiet_def quiet_sinks_def after_image_def)

lemma main_loop_quiet:
  "quiet_sinks i K \<Longrightarrow> e \<in> set (snd (main_loop E C files K exit_code)) \<Longrightarrow> \<not> touches i e"
proof (induction files arbitrary: K exit_code)
  case Nil
  then show ?case by simp
next
  case (Cons path rest)
  let ?st = "process_image E C path K"
  have q: "quiet i ?st" using Cons.prems(1) by (rule process_image_quiet)
  from Cons.prems(2) consider
    (a) "e \<in> set (st_out ?st)"
    | (b) "e = Stderr (st_err_msg ?st) (st_err ?st)"
    | (c) "e \<in> set (snd (main_loop E C rest (after_image ?st)
                (if st_err ?st \<noteq> VL_ERR_OK then 1 else exit_code)))"
    by (auto simp: Let_def split_def split: if_splits)
  then show ?case
  proof cases
    case a
    with q show ?thesis by (simp add: quiet_def)
  next
    case b
    then show ?thesis by (simp add: touches_def)
  next
    case c
    from Cons.IH [OF after_image_quiet [OF q] c] show ?thesis .
  qed
qed

text \<open>
  C5. Opening an inactive sink and snapshotting with an inactive gss sink change
  nothing, emit no event and succeed (the result of the snapshot does not depend on
  the allocation); and in a whole batch, whatever the images and the environment, a sink
  that is inactive and not open when the image loop starts is never opened, written or
  closed, and the meta block never reports it.
\<close>

theorem inactive_sink_untouched:
  "(\<not> active fm \<longrightarrow>
      vl_file_meta_open E j fm basename = (VL_ERR_OK, fm, []) \<and>
      save_gss E filt fm basename = (VL_ERR_OK, fm, [])) \<and>
   (\<not> active (sink_of i K) \<and> fm_file (sink_of i K) = None \<longrightarrow>
      (\<forall>e \<in> set (snd (main_loop E C files K exit_code)).
         event_sink e \<noteq> Some i \<and> \<not> mentions i e))"
  using main_loop_quiet [of i K _ E C files exit_code]
  by (auto simp: open_inactive save_gss_inactive quiet_sinks_def touches_def)

theorem inactive_sink_untouched_witness:
  "vl_file_meta_open ex_env DSC (dsc initial_options) ''a'' = (VL_ERR_OK, dsc initial_options, []) \<and>
   save_gss ex_env ex_filt_nomem (dsc initial_options) ''a'' = (VL_ERR_OK, dsc initial_options, []) \<and>
   \<not> (\<exists>e \<in> set (snd (main_loop ex_env initial_options [''a.pgm'', ''b.pgm'']
                       (sinks_of initial_options) 0)).
        event_sink e = Some DSC \<or> mentions DSC e)"
  using inactive_sink_untouched [of "dsc initial_options" ex_env DSC "''a''" ex_filt_nomem DSC
      "sinks_of initial_options" initial_options "[''a.pgm'', ''b.pgm'']" 0]
  by (simp add: initial_options_def sinks_of_def)

subsection \<open>Options\<close>

lemma parse_option_sinks:
  "\<not> sink_flag ch \<Longrightarrow> parse_option E ch arg ps = Parsed ps' \<Longrightarrow> sinks_of ps' = sinks_of ps"
  by (cases ch) (auto simp: sinks_of_def ERR_def split_def Let_def split: if_splits)

lemma parse_options_sinks:
  "\<forall>g \<in> set opts. \<not> sink_flag (fst g) \<Longrightarrow> parse_options E opts ps = Parsed ps' \<Longrightarrow>
     sinks_of ps' = sinks_of ps"
proof (induction opts arbitrary: ps)
  case Nil
  then show ?case by simp
next
  case (Cons g opts)
  obtain ch arg where g: "g = (ch, arg)" by (cases g)
  show ?case
  proof (cases "opt_err ps \<noteq> VL_ERR_OK")
    case True
    with Cons.prems g show ?thesis by simp
  next
    case False
    with Cons.prems(2) g obtain ps1 where
      p1: "parse_option E ch arg ps = Parsed ps1" and p2: "parse_options E opts ps1 = Parsed ps'"
      by (auto split: parse_result.splits)
    from Cons.prems(1) g have "\<not> sink_flag ch" by simp
    from parse_option_sinks [OF this p1] Cons.IH [OF _ p2] Cons.prems(1)
    show ?thesis by simp
  qed
qed

text \<open>
  C10. The initialisers make the frames sink active with pattern \<^verbatim>\<open>%.frame\<close> and the
  ASCII protocol, and the four other sinks inactive; and a run whose options configure
  no sink, whatever its images and however it ends, performs no event on the
  descriptors, meta or gss sink: its events are on the frames sink or the error stream.
\<close>

theorem default_sinks_frames_only:
  "active (frm initial_options) \<and> pattern (frm initial_options) = ''%.frame'' \<and>
   protocol (frm initial_options) = VL_PROT_ASCII \<and>
   \<not> active (dsc initial_options) \<and> \<not> active (met initial_options) \<and>
   \<not> active (gss initial_options) \<and> \<not> active (ifr initial_options) \<and>
   ((\<forall>g \<in> set opts. \<not> sink_flag (fst g)) \<longrightarrow> main E opts files = Exit c ev \<longrightarrow>
      (\<forall>e \<in> set ev. event_sink e = Some FRM \<or> event_sink e = None))"
proof -
  have "event_sink e = Some FRM \<or> event_sink e = None"
    if flags: "\<forall>g \<in> set opts. \<not> sink_flag (fst g)" and run: "main E opts files = Exit c ev"
      and e: "e \<in> set ev" for e
  proof (cases "parse_options E opts initial_options")
    case (Parsed ps)
    show ?thesis
    proof (cases "opt_err ps \<noteq> VL_ERR_OK")
      case True
      with Parsed run e show ?thesis by (auto simp: main_def)
    next
      case False
      from parse_options_sinks [OF flags Parsed]
      have K: "sinks_of ps = sinks_of initial_options" .
      have q: "quiet_sinks i (sinks_of ps)" if "i \<noteq> FRM" for i
        using that unfolding K by (cases i) (simp_all add: quiet_sinks_def sinks_of_def initial_options_def)
      from False Parsed run e have "e \<in> set (snd (main_loop E ps files (sinks_of ps) 0))"
        by (auto simp: main_def split_def Let_def)
      with q main_loop_quiet have "\<not> touches i e" if "i \<noteq> FRM" for i
        using that by blast
      then have "event_sink e \<noteq> Some DSC" "event_sink e \<noteq> Some MET" "event_sink e \<noteq> Some GSS"
        by (auto simp: touches_def)
      then show ?thesis
        by (cases "event_sink e") (auto, metis sink_id.exhaust)
    qed
  next
    case (Exited c')
    with run e show ?thesis by (simp add: main_def)
  next
    case Aborted
    with run show ?thesis by (simp add: main_def)
  qed
  then show ?thesis
    by (simp add: initial_options_def)
qed

theorem default_sinks_frames_only_witness:
  "\<not> sink_flag Ch_v \<and>
   main ex_env [(Ch_v, ''-v'')] [''a.pgm''] =
     Exit 0 [Fopen FRM ''a.frame'', Fprintf FRM (Frame 1 2 3 10), Fprintf FRM (Frame 1 2 3 20),
             Fprintf FRM (Frame 1 2 3 30), Fclose FRM] \<and>
   \<not> (\<exists>e \<in> set [Fopen FRM ''a.frame'', Fprintf FRM (Frame 1 2 3 10), Fprintf FRM (Frame 1 2 3 20),
             Fprintf FRM (Frame 1 2 3 30), Fclose FRM].
        event_sink e \<noteq> Some FRM \<and> event_sink e \<noteq> None)"
proof -
  have run: "main ex_env [(Ch_v, ''-v'')] [''a.pgm''] =
     Exit 0 [Fopen FRM ''a.frame'', Fprintf FRM (Frame 1 2 3 10), Fprintf FRM (Frame 1 2 3 20),
             Fprintf FRM (Frame 1 2 3 30), Fclose FRM]"
    by code_simp
  have flags: "\<forall>g \<in> set [(Ch_v, ''-v'')]. \<not> sink_flag (fst g)" by simp
  from default_sinks_frames_only [where opts = "[(Ch_v, ''-v'')]" and E = ex_env
      and files = "[''a.pgm'']" and c = 0
      and ev = "[Fopen FRM ''a.frame'', Fprintf FRM (Frame 1 2 3 10), Fprintf FRM (Frame 1 2 3 20),
             Fprintf FRM (Frame 1 2 3 30), Fclose FRM]"] flags run
  show ?thesis by simp
qed

subsection \<open>The error code of an image\<close>

lemma snapshot_octave_err:
  "st_err st = VL_ERR_OK \<Longrightarrow>
     st_err (snapshot_octave E basename filt st) =
       (if active (gss st) then gss_result filt else VL_ERR_OK)"
  by (simp add: snapshot_octave_def split_def Let_def save_gss_status)

lemma snapshot_octave_gss_active [simp]:
  "active (gss (snapshot_octave E basename filt st)) = active (gss st)"
  by (simp add: snapshot_octave_def split_def Let_def)

lemma detect_and_emit_fields [simp]:
  "st_err (detect_and_emit filt st) = st_err st"
  "gss (detect_and_emit filt st) = gss st"
  by (simp_all add: detect_and_emit_def)

lemma octave_loop_Break: "octave_loop E basename d st = Break st' \<Longrightarrow> st_err st' = VL_ERR_OK"
  by (induction d arbitrary: st) (auto simp: Let_def split: if_splits)

lemma octave_loop_Goto_done:
  "octave_loop E basename d st = Goto_done st' \<Longrightarrow> st_err st' \<noteq> VL_ERR_OK"
  by (induction d arbitrary: st) (auto simp: Let_def split: if_splits)

lemma octave_loop_ends_by_break:
  "\<forall>f \<in> set fs. active (gss st) \<longrightarrow> gss_result f = VL_ERR_OK \<Longrightarrow>
     \<exists>st'. octave_loop E basename (foldr Octave fs (NoMore e)) st = Break st'"
proof (induction fs arbitrary: st)
  case Nil
  then show ?case by simp
next
  case (Cons f fs)
  let ?st1 = "snapshot_octave E basename f (st\<lparr>st_err := VL_ERR_OK\<rparr>)"
  from Cons.prems have ok: "st_err ?st1 = VL_ERR_OK"
    by (simp add: snapshot_octave_err)
  have "\<exists>st'. octave_loop E basename (foldr Octave fs (NoMore e)) (detect_and_emit f ?st1) =
          Break st'"
    by (rule Cons.IH) (use Cons.prems in simp)
  with ok show ?case by (simp add: Let_def)
qed

lemma write_meta_err [simp]: "st_err (write_meta path st) = st_err st"
  by (simp add: write_meta_def)

lemma done_block_err [simp]:
  "st_err (done_block st) = st_err st" "st_err_msg (done_block st) = st_err_msg st"
  by (simp_all add: done_block_def close_frm_def close_dsc_def close_met_def close_gss_def
      split_def Let_def)

text \<open>
  C3 (as the code has it). Whatever non-zero code \<open>e\<close> the octave advance returns
  after the octaves \<open>fs\<close> (the end-of-octaves signal, on the first advance the signal
  of an image that is too small, or any other failure code), the image reaches the
  label \<^verbatim>\<open>done\<close> with \<^verbatim>\<open>err\<close> cleared, provided no snapshot has set it before.
\<close>

theorem any_advance_failure_ends_normally:
  assumes "vl_sift_new E path (width pim) (height pim) (opt_O C) (opt_S C) (omin C) =
             Some (foldr Octave fs (NoMore e))"
    and "\<forall>f \<in> set fs. active (gss st) \<longrightarrow> gss_result f = VL_ERR_OK"
  shows "st_err (process_data E C path basename pim st) = VL_ERR_OK"
proof -
  from assms(2) have "\<forall>f \<in> set fs. active (gss (st\<lparr>st_filt := True\<rparr>)) \<longrightarrow> gss_result f = VL_ERR_OK"
    by simp
  from octave_loop_ends_by_break [OF this] obtain st' where
    br: "octave_loop E basename (foldr Octave fs (NoMore e)) (st\<lparr>st_filt := True\<rparr>) = Break st'"
    by blast
  from octave_loop_Break [OF br] assms(1) br show ?thesis
    by (simp add: process_data_def)
qed

theorem any_advance_failure_ends_normally_witness:
  "vl_sift_new ex_env_detfail ''a.pgm'' 2 1 (- 1) 3 (- 1) =
     Some (foldr Octave [ex_filt] (NoMore VL_ERR_ALLOC)) \<and>
   \<not> active (gss (image_start (sinks_of initial_options))) \<and>
   st_err (process_data ex_env_detfail initial_options ''a.pgm'' ''a''
     \<lparr>width = 2, height = 1, max_value = 255, is_raw = 1\<rparr>
     (image_start (sinks_of initial_options))) = VL_ERR_OK"
proof -
  have a: "vl_sift_new ex_env_detfail ''a.pgm''
      (width \<lparr>width = 2, height = 1, max_value = 255, is_raw = 1\<rparr>)
      (height \<lparr>width = 2, height = 1, max_value = 255, is_raw = 1\<rparr>)
      (opt_O initial_options) (opt_S initial_options) (omin initial_options) =
     Some (foldr Octave [ex_filt] (NoMore VL_ERR_ALLOC))"
    by (simp add: ex_env_detfail_def)
  have b: "\<forall>f \<in> set [ex_filt]. active (gss (image_start (sinks_of initial_options))) \<longrightarrow>
      gss_result f = VL_ERR_OK"
    by (simp add: image_start_def sinks_of_def initial_options_def)
  have c: "\<not> active (gss (image_start (sinks_of initial_options)))"
    by (simp add: image_start_def sinks_of_def initial_options_def)
  from any_advance_failure_ends_normally [OF a b, of "''a''"] a c show ?thesis
    by (simp add: initial_options_def)
qed

text \<open>
  The claim as stated fails: the detector of this run fails with \<^verbatim>\<open>VL_ERR_ALLOC\<close>,
  which is not the end-of-octaves code, when advanced to the second octave, and the
  run prints no diagnostic and exits with status 0.
\<close>

theorem advance_failure_not_fatal_counterexample:
  "vl_sift_new ex_env_detfail ''a.pgm'' 2 1 (- 1) 3 (- 1) =
     Some (Octave ex_filt (NoMore VL_ERR_ALLOC)) \<and>
   VL_ERR_ALLOC \<noteq> VL_ERR_EOF \<and>
   main ex_env_detfail [] [''a.pgm''] =
     Exit 0 [Fopen FRM ''a.frame'', Fprintf FRM (Frame 1 2 3 10), Fprintf FRM (Frame 1 2 3 20),
             Fprintf FRM (Frame 1 2 3 30), Fclose FRM]"
proof -
  have "main ex_env_detfail [] [''a.pgm''] =
     Exit 0 [Fopen FRM ''a.frame'', Fprintf FRM (Frame 1 2 3 10), Fprintf FRM (Frame 1 2 3 20),
             Fprintf FRM (Frame 1 2 3 30), Fclose FRM]"
    by code_simp
  then show ?thesis
    by (simp add: ex_env_detfail_def)
qed

subsection \<open>The image loop\<close>

lemma main_loop_states:
  "fst (main_loop E C files K exit_code) =
     (if \<forall>st \<in> set (image_states E C files K). st_err st = VL_ERR_OK then exit_code else 1) \<and>
   snd (main_loop E C files K exit_code) = concat (map image_events (image_states E C files K))"
  by (induction files arbitrary: K exit_code)
     (simp_all add: Let_def split_def image_events_def)

lemma length_image_states: "length (image_states E C files K) = length files"
  by (induction files arbitrary: K) (simp_all add: Let_def)


subsection \<open>The lines an image writes to the frames and descriptors sinks\<close>

lemma written_gss_events: "\<forall>e \<in> set ev. gss_event e \<Longrightarrow> written i ev = []"
proof (induction ev)
  case Nil
  then show ?case by simp
next
  case (Cons e ev)
  then show ?case by (cases e) simp_all
qed

lemma written_open [simp]: "written i (snd (snd (vl_file_meta_open E j fm b))) = []"
  by (simp add: vl_file_meta_open_def Let_def)

lemma written_close [simp]: "written i (snd (vl_file_meta_close j fm)) = []"
  by (simp add: vl_file_meta_close_def split: option.splits)

lemma written_save_gss [simp]: "written i (snd (snd (save_gss E filt fm b))) = []"
  by (rule written_gss_events) (simp add: save_gss_events)

lemma length_written_emit_record:
  "i = FRM \<or> i = DSC \<Longrightarrow>
     length (written i (emit_record K filt k a)) = (if active (sink_of i K) then 1 else 0)"
  by (auto simp: emit_record_def Let_def)

lemma length_written_emit_keypoint:
  "i = FRM \<or> i = DSC \<Longrightarrow>
     length (written i (emit_keypoint K filt k)) =
       (if active (sink_of i K) then length (orientations filt k) else 0)"
proof -
  assume i: "i = FRM \<or> i = DSC"
  have "length (written i (concat (map (emit_record K filt k) angles))) =
          (if active (sink_of i K) then length angles else 0)" for angles
    by (induction angles) (simp_all add: written_append length_written_emit_record [OF i])
  then show ?thesis by (simp add: emit_keypoint_def)
qed

lemma length_written_emit_keypoints:
  "i = FRM \<or> i = DSC \<Longrightarrow>
     length (written i (emit_keypoints K filt)) =
       (if active (sink_of i K) then orientation_count filt else 0)"
proof -
  assume i: "i = FRM \<or> i = DSC"
  have "length (written i (concat (map (emit_keypoint K filt) ks))) =
          (if active (sink_of i K)
           then sum_list (map (\<lambda>k. length (orientations filt k)) ks) else 0)" for ks
    by (induction ks) (simp_all add: written_append length_written_emit_keypoint [OF i])
  then show ?thesis by (simp add: emit_keypoints_def orientation_count_def)
qed

lemma snapshot_octave_written [simp]:
  "written i (st_out (snapshot_octave E basename filt st)) = written i (st_out st)"
  by (simp add: snapshot_octave_def split_def Let_def written_append)

lemma snapshot_octave_sink:
  "i \<noteq> GSS \<Longrightarrow> sink_of i (snapshot_octave E basename filt st) = sink_of i st"
  by (cases i) (simp_all add: snapshot_octave_def split_def Let_def)

lemma detect_and_emit_sink [simp]: "sink_of i (detect_and_emit filt st) = sink_of i st"
  by (cases i) (simp_all add: detect_and_emit_def)

lemma detect_and_emit_written:
  "i = FRM \<or> i = DSC \<Longrightarrow>
     length (written i (st_out (detect_and_emit filt st))) =
       length (written i (st_out st)) + (if active (sink_of i st) then orientation_count filt else 0)"
  by (simp add: detect_and_emit_def written_append length_written_emit_keypoints)

lemma octave_loop_written:
  "i = FRM \<or> i = DSC \<Longrightarrow> octave_loop E basename d st = Break st' \<Longrightarrow>
     length (written i (st_out st')) =
       length (written i (st_out st)) + (if active (sink_of i st) then detections d else 0)"
proof (induction d arbitrary: st)
  case (NoMore e)
  then show ?case by auto
next
  case (Octave filt d)
  let ?st1 = "snapshot_octave E basename filt (st\<lparr>st_err := VL_ERR_OK\<rparr>)"
  from Octave.prems(1) have ne: "i \<noteq> GSS" by auto
  from Octave.prems(2) have br: "octave_loop E basename d (detect_and_emit filt ?st1) = Break st'"
    by (simp add: Let_def split: if_splits)
  from Octave.IH [OF Octave.prems(1) br] show ?case
    by (simp add: detect_and_emit_written [OF Octave.prems(1)] snapshot_octave_sink [OF ne])
qed

lemma write_meta_written:
  "i \<noteq> MET \<Longrightarrow> written i (st_out (write_meta path st)) = written i (st_out st)"
  by (simp add: write_meta_def written_append)

lemma process_data_ok:
  assumes "st_err (process_data E C path basename pim st) = VL_ERR_OK" and "i = FRM \<or> i = DSC"
  shows "\<exists>d. vl_sift_new E path (width pim) (height pim) (opt_O C) (opt_S C) (omin C) = Some d \<and>
           length (written i (st_out (process_data E C path basename pim st))) =
             length (written i (st_out st)) + (if active (sink_of i st) then detections d else 0)"
proof (cases "vl_sift_new E path (width pim) (height pim) (opt_O C) (opt_S C) (omin C)")
  case None
  with assms(1) show ?thesis by (simp add: process_data_def VL_ERR_OK_def)
next
  case (Some d)
  from assms(2) have ne: "i \<noteq> MET" by auto
  show ?thesis
  proof (cases "octave_loop E basename d (st\<lparr>st_filt := True\<rparr>)")
    case (Break st')
    from octave_loop_written [OF assms(2) Break] Some Break show ?thesis
      by (simp add: process_data_def write_meta_written [OF ne])
  next
    case (Goto_done st')
    from octave_loop_Goto_done [OF Goto_done] assms(1) Some Goto_done show ?thesis
      by (simp add: process_data_def)
  qed
qed

lemma read_image_ok:
  assumes "st_err (read_image E C path basename st) = VL_ERR_OK" and "i = FRM \<or> i = DSC"
  shows "fst (vl_pgm_extract_head E path) = VL_ERR_OK \<and> malloc_data E path \<and>
         malloc_fdata E path \<and> vl_pgm_extract_data E path = VL_ERR_OK \<and>
         (\<exists>d. image_detector E C path = Some d \<and>
            length (written i (st_out (read_image E C path basename st))) =
              length (written i (st_out st)) + (if active (sink_of i st) then detections d else 0))"
proof -
  let ?st1 = "st\<lparr>st_data := True, st_fdata := True, st_err := VL_ERR_OK\<rparr>"
  from assms(1) have facts: "fst (vl_pgm_extract_head E path) = VL_ERR_OK" "malloc_data E path"
      "malloc_fdata E path" "vl_pgm_extract_data E path = VL_ERR_OK"
    by (auto simp: read_image_def split_def Let_def VL_ERR_OK_def split: if_splits)
  then have eq: "read_image E C path basename st =
      process_data E C path basename (snd (vl_pgm_extract_head E path)) ?st1"
    by (simp add: read_image_def split_def Let_def)
  from process_data_ok [OF assms(1) [unfolded eq] assms(2)] facts show ?thesis
    by (simp add: eq image_detector_def Let_def)
qed

lemma WERR_Some: "WERR err nm = Some m \<Longrightarrow> err \<noteq> VL_ERR_OK"
  by (auto simp: WERR_def VL_ERR_OK_def split: if_splits)

lemma open_sink_written [simp]:
  "written i (st_out (open_dsc E b st)) = written i (st_out st)"
  "written i (st_out (open_frm E b st)) = written i (st_out st)"
  "written i (st_out (open_met E b st)) = written i (st_out st)"
  by (simp_all add: open_dsc_def open_frm_def open_met_def split_def Let_def written_append)

lemma open_sink_active [simp]:
  "active (sink_of i (open_dsc E b st)) = active (sink_of i st)"
  "active (sink_of i (open_frm E b st)) = active (sink_of i st)"
  "active (sink_of i (open_met E b st)) = active (sink_of i st)"
  by (cases i; simp add: open_dsc_def open_frm_def open_met_def split_def Let_def)+

lemma open_output_files_ok:
  assumes "st_err (open_output_files E C path basename st) = VL_ERR_OK"
  shows "open_output_files E C path basename st =
           read_image E C path basename (open_met E basename (open_frm E basename (open_dsc E basename st)))"
  using assms
  by (auto simp: open_output_files_def Let_def split: option.splits dest: WERR_Some)

lemma image_body_ok:
  assumes "st_err (image_body E C path K) = VL_ERR_OK"
  shows "length (vl_string_basename E path) < 1024 \<and> fopen_r E path \<and>
         image_body E C path K =
           open_output_files E C path (vl_string_basename E path) (image_start K\<lparr>st_in := True\<rparr>)"
  using assms
  by (auto simp: image_body_def Let_def VL_ERR_OK_def split: if_splits)

lemma close_sink_written [simp]:
  "written i (st_out (close_frm st)) = written i (st_out st)"
  "written i (st_out (close_dsc st)) = written i (st_out st)"
  "written i (st_out (close_met st)) = written i (st_out st)"
  "written i (st_out (close_gss st)) = written i (st_out st)"
  by (simp_all add: close_frm_def close_dsc_def close_met_def close_gss_def split_def Let_def
      written_append)

lemma done_block_written [simp]: "written i (st_out (done_block st)) = written i (st_out st)"
  by (simp add: done_block_def)

lemma sink_of_image_start [simp]: "sink_of i (image_start K) = sink_of i K"
  by (cases i) (simp_all add: image_start_def)

lemma process_image_ok:
  assumes "st_err (process_image E C path K) = VL_ERR_OK" and "i = FRM \<or> i = DSC"
  shows "length (vl_string_basename E path) < 1024 \<and> fopen_r E path \<and>
         fst (vl_pgm_extract_head E path) = VL_ERR_OK \<and> malloc_data E path \<and>
         malloc_fdata E path \<and> vl_pgm_extract_data E path = VL_ERR_OK \<and>
         (\<exists>d. image_detector E C path = Some d \<and>
            length (written i (st_out (process_image E C path K))) =
              (if active (sink_of i K) then detections d else 0))"
proof -
  let ?b = "vl_string_basename E path"
  let ?st3 = "open_met E ?b (open_frm E ?b (open_dsc E ?b (image_start K\<lparr>st_in := True\<rparr>)))"
  from assms(1) have ok: "st_err (image_body E C path K) = VL_ERR_OK"
    by (simp add: process_image_def)
  from image_body_ok [OF ok] have b: "length ?b < 1024" "fopen_r E path"
    and eq1: "image_body E C path K = open_output_files E C path ?b (image_start K\<lparr>st_in := True\<rparr>)"
    by simp_all
  from ok eq1 have ok2: "st_err (open_output_files E C path ?b (image_start K\<lparr>st_in := True\<rparr>)) = VL_ERR_OK"
    by simp
  from open_output_files_ok [OF ok2] have eq2:
    "open_output_files E C path ?b (image_start K\<lparr>st_in := True\<rparr>) = read_image E C path ?b ?st3" .
  from ok2 eq2 have ok3: "st_err (read_image E C path ?b ?st3) = VL_ERR_OK" by simp
  have out0: "written i (st_out ?st3) = []" by (simp add: image_start_def)
  have act: "active (sink_of i ?st3) = active (sink_of i K)" by simp
  from read_image_ok [OF ok3 assms(2)] obtain d where
    facts: "fst (vl_pgm_extract_head E path) = VL_ERR_OK" "malloc_data E path"
      "malloc_fdata E path" "vl_pgm_extract_data E path = VL_ERR_OK"
      "image_detector E C path = Some d"
    and n: "length (written i (st_out (read_image E C path ?b ?st3))) =
              length (written i (st_out ?st3)) + (if active (sink_of i ?st3) then detections d else 0)"
    by blast
  from n have "length (written i (st_out (process_image E C path K))) =
      (if active (sink_of i K) then detections d else 0)"
    unfolding out0 act by (simp add: process_image_def eq1 eq2)
  with facts b show ?thesis by blast
qed

lemma open_sink_err:
  "st_err (open_dsc E b st) = fst (vl_file_meta_open E DSC (dsc st) b)"
  "st_err (open_frm E b st) = fst (vl_file_meta_open E FRM (frm st) b)"
  "st_err (open_met E b st) = fst (vl_file_meta_open E MET (met st) b)"
  by (simp_all add: open_dsc_def open_frm_def open_met_def split_def Let_def)

lemma open_sink_others [simp]:
  "frm (open_dsc E b st) = frm st" "met (open_dsc E b st) = met st"
  "met (open_frm E b st) = met st"
  by (simp_all add: open_dsc_def open_frm_def split_def Let_def)

lemma WERR_None: "WERR err nm = None \<Longrightarrow> err = VL_ERR_OK"
  by (auto simp: WERR_def VL_ERR_OK_def split: if_splits)

lemma open_output_files_opened:
  assumes "st_err (open_output_files E C path b st) = VL_ERR_OK"
  shows "fst (vl_file_meta_open E DSC (dsc st) b) = VL_ERR_OK \<and>
         fst (vl_file_meta_open E FRM (frm st) b) = VL_ERR_OK \<and>
         fst (vl_file_meta_open E MET (met st) b) = VL_ERR_OK"
proof -
  from assms have
    "WERR (st_err (open_dsc E b st)) (name (dsc (open_dsc E b st))) = None"
    "WERR (st_err (open_frm E b (open_dsc E b st))) (name (frm (open_frm E b (open_dsc E b st)))) = None"
    "WERR (st_err (open_met E b (open_frm E b (open_dsc E b st))))
       (name (met (open_met E b (open_frm E b (open_dsc E b st))))) = None"
    by (auto simp: open_output_files_def Let_def split: option.splits dest: WERR_Some)
  from this [THEN WERR_None] show ?thesis
    by (simp add: open_sink_err)
qed

lemma process_image_opened:
  assumes "st_err (process_image E C path K) = VL_ERR_OK"
  shows "fst (vl_file_meta_open E DSC (dsc K) (vl_string_basename E path)) = VL_ERR_OK \<and>
         fst (vl_file_meta_open E FRM (frm K) (vl_string_basename E path)) = VL_ERR_OK \<and>
         fst (vl_file_meta_open E MET (met K) (vl_string_basename E path)) = VL_ERR_OK"
proof -
  from assms have ok: "st_err (image_body E C path K) = VL_ERR_OK"
    by (simp add: process_image_def)
  from image_body_ok [OF ok] ok
  have "st_err (open_output_files E C path (vl_string_basename E path)
          (image_start K\<lparr>st_in := True\<rparr>)) = VL_ERR_OK"
    by simp
  from open_output_files_opened [OF this] show ?thesis
    by (simp add: image_start_def)
qed

text \<open>
  The image loop, for every list of images and every environment: every image of the
  list is processed, whether or not an earlier one failed; the events of the run are,
  image by image, the events of the image followed by one diagnostic (message and code)
  exactly when the image ends with \<^verbatim>\<open>err\<close> set; the exit status is 0 if and only if
  every image ends with \<^verbatim>\<open>err\<close> clear, and 1 if and only if some image ends with
  \<^verbatim>\<open>err\<close> set. An image ends with \<^verbatim>\<open>err\<close> set whenever its base name is too long, it
  cannot be opened for reading, one of the three output files cannot be opened, its
  header or its body is corrupt, a buffer cannot be allocated or the detector cannot be
  built. An image that cannot be opened for reading contributes nothing but its
  diagnostic. (A failure inside \<^verbatim>\<open>save_gss\<close> is not among these: see below.)
\<close>

lemma image_loop_exit_status:
  "length (image_states E C files K) = length files \<and>
   snd (main_loop E C files K 0) = concat (map image_events (image_states E C files K)) \<and>
   (fst (main_loop E C files K 0) = 0 \<longleftrightarrow>
      (\<forall>st \<in> set (image_states E C files K). st_err st = VL_ERR_OK)) \<and>
   (fst (main_loop E C files K 0) = 1 \<longleftrightarrow>
      (\<exists>st \<in> set (image_states E C files K). st_err st \<noteq> VL_ERR_OK)) \<and>
   (1024 \<le> length (vl_string_basename E path) \<or> \<not> fopen_r E path \<or>
    fst (vl_file_meta_open E DSC (dsc K') (vl_string_basename E path)) \<noteq> VL_ERR_OK \<or>
    fst (vl_file_meta_open E FRM (frm K') (vl_string_basename E path)) \<noteq> VL_ERR_OK \<or>
    fst (vl_file_meta_open E MET (met K') (vl_string_basename E path)) \<noteq> VL_ERR_OK \<or>
    fst (vl_pgm_extract_head E path) \<noteq> VL_ERR_OK \<or>
    \<not> malloc_data E path \<or> \<not> malloc_fdata E path \<or>
    vl_pgm_extract_data E path \<noteq> VL_ERR_OK \<or> image_detector E C path = None
    \<longrightarrow> st_err (process_image E C path K') \<noteq> VL_ERR_OK) \<and>
   (length (vl_string_basename E path) < 1024 \<and> \<not> fopen_r E path \<and> closed_sinks K'
    \<longrightarrow> image_events (process_image E C path K') =
          [Stderr (snprintf_err_msg (''Could not open '' @ quoted path @ '' for reading.''))
             (Some VL_ERR_IO)])"
proof -
  have unreadable: "image_events (process_image E C path K') =
          [Stderr (snprintf_err_msg (''Could not open '' @ quoted path @ '' for reading.''))
             (Some VL_ERR_IO)]"
    if "length (vl_string_basename E path) < 1024 \<and> \<not> fopen_r E path \<and> closed_sinks K'"
    using that
    by (simp add: image_events_def process_image_def image_body_def done_block_def
        close_frm_def close_dsc_def close_met_def close_gss_def close_None closed_sinks_def
        image_start_def Let_def VL_ERR_OK_def)
  have causes: "st_err (process_image E C path K') \<noteq> VL_ERR_OK"
    if "1024 \<le> length (vl_string_basename E path) \<or> \<not> fopen_r E path \<or>
        fst (vl_file_meta_open E DSC (dsc K') (vl_string_basename E path)) \<noteq> VL_ERR_OK \<or>
        fst (vl_file_meta_open E FRM (frm K') (vl_string_basename E path)) \<noteq> VL_ERR_OK \<or>
        fst (vl_file_meta_open E MET (met K') (vl_string_basename E path)) \<noteq> VL_ERR_OK \<or>
        fst (vl_pgm_extract_head E path) \<noteq> VL_ERR_OK \<or>
        \<not> malloc_data E path \<or> \<not> malloc_fdata E path \<or>
        vl_pgm_extract_data E path \<noteq> VL_ERR_OK \<or> image_detector E C path = None"
  proof
    assume ok: "st_err (process_image E C path K') = VL_ERR_OK"
    from process_image_ok [OF ok, of FRM] process_image_opened [OF ok] that
    show False by auto
  qed
  from main_loop_states [of E C files K 0] length_image_states [of E C files K] causes
  have "length (image_states E C files K) = length files \<and>
      snd (main_loop E C files K 0) = concat (map image_events (image_states E C files K)) \<and>
      (fst (main_loop E C files K 0) = 0 \<longleftrightarrow>
         (\<forall>st \<in> set (image_states E C files K). st_err st = VL_ERR_OK)) \<and>
      (fst (main_loop E C files K 0) = 1 \<longleftrightarrow>
         (\<exists>st \<in> set (image_states E C files K). st_err st \<noteq> VL_ERR_OK))"
    by (auto split: if_splits)
  with causes unreadable show ?thesis by blast
qed

text \<open>
  A batch with an unreadable image in the middle: the image prints its diagnostic, the
  images before and after it are processed, and the exit status is 1.
\<close>

lemma image_loop_exit_status_example:
  "main_loop ex_env initial_options [''a.pgm'', ''missing.pgm'', ''b.pgm''] (sinks_of initial_options) 0 =
     (1, [Fopen FRM ''a.frame'', Fprintf FRM (Frame 1 2 3 10), Fprintf FRM (Frame 1 2 3 20),
          Fprintf FRM (Frame 1 2 3 30), Fclose FRM,
          Stderr (''Could not open '' @ quoted ''missing.pgm'' @ '' for reading.'') (Some VL_ERR_IO),
          Fopen FRM ''b.frame'', Fprintf FRM (Frame 1 2 3 10), Fprintf FRM (Frame 1 2 3 20),
          Fprintf FRM (Frame 1 2 3 30), Fclose FRM])"
  by code_simp

text \<open>
  C4. The claim fails on the code for a fatal error inside \<^verbatim>\<open>save_gss\<close>, and by the
  defect of C2: \<^verbatim>\<open>main\<close> does test the result of \<^verbatim>\<open>save_gss\<close> and has a diagnostic for
  it, but the function does not return its \<^verbatim>\<open>err\<close>. Whatever happens inside
  \<^verbatim>\<open>save_gss\<close> for an active sink (the buffer cannot be allocated, the name overflows, a
  level file cannot be opened or written), when the value the caller reads is zero the
  octave loop goes on with \<^verbatim>\<open>err\<close> clear, as after a snapshot that succeeded: the image
  prints no diagnostic and leaves the exit status as it is.
\<close>

theorem snapshot_failure_not_reported:
  assumes "active (gss st)" and "gss_result filt = VL_ERR_OK"
  shows "st_err (snapshot_octave E basename filt (st\<lparr>st_err := VL_ERR_OK\<rparr>)) = VL_ERR_OK \<and>
         octave_loop E basename (Octave filt d) st =
           octave_loop E basename d
             (detect_and_emit filt (snapshot_octave E basename filt (st\<lparr>st_err := VL_ERR_OK\<rparr>)))"
  using assms by (simp add: snapshot_octave_err Let_def)

text \<open>
  The run \<^verbatim>\<open>sift --gss a.pgm b.pgm\<close> where no PGM image can be written: in each image
  \<^verbatim>\<open>save_gss\<close> opens the file of level 0, fails to write it with \<^verbatim>\<open>VL_ERR_IO\<close> and
  closes it; no diagnostic is printed and the exit status is 0.
\<close>

theorem snapshot_failure_not_reported_witness:
  "active (gss (image_start ex_sinks_gss)) \<and> gss_result ex_filt = VL_ERR_OK \<and>
   fst (save_gss_body ex_env_diskfull ex_filt (gss ex_sinks_gss) ''a'' None) = Some VL_ERR_IO \<and>
   st_err (snapshot_octave ex_env_diskfull ''a'' ex_filt
     ((image_start ex_sinks_gss)\<lparr>st_err := VL_ERR_OK\<rparr>)) = VL_ERR_OK \<and>
   main ex_env_diskfull [(Opt_gss None, ''--gss'')] [''a.pgm'', ''b.pgm''] =
     Exit 0 [Fopen FRM ''a.frame'', Fopen GSS ''a_00_000.pgm'', Fclose GSS,
             Fprintf FRM (Frame 1 2 3 10), Fprintf FRM (Frame 1 2 3 20),
             Fprintf FRM (Frame 1 2 3 30), Fclose FRM,
             Fopen FRM ''b.frame'', Fopen GSS ''b_00_000.pgm'', Fclose GSS,
             Fprintf FRM (Frame 1 2 3 10), Fprintf FRM (Frame 1 2 3 20),
             Fprintf FRM (Frame 1 2 3 30), Fclose FRM]"
proof -
  have a: "active (gss (image_start ex_sinks_gss))"
    by (simp add: image_start_def ex_sinks_gss_def)
  have b: "gss_result ex_filt = VL_ERR_OK"
    by (simp add: ex_filt_def VL_ERR_OK_def)
  have c: "fst (save_gss_body ex_env_diskfull ex_filt (gss ex_sinks_gss) ''a'' None) =
      Some VL_ERR_IO"
    by code_simp
  have run: "main ex_env_diskfull [(Opt_gss None, ''--gss'')] [''a.pgm'', ''b.pgm''] =
     Exit 0 [Fopen FRM ''a.frame'', Fopen GSS ''a_00_000.pgm'', Fclose GSS,
             Fprintf FRM (Frame 1 2 3 10), Fprintf FRM (Frame 1 2 3 20),
             Fprintf FRM (Frame 1 2 3 30), Fclose FRM,
             Fopen FRM ''b.frame'', Fopen GSS ''b_00_000.pgm'', Fclose GSS,
             Fprintf FRM (Frame 1 2 3 10), Fprintf FRM (Frame 1 2 3 20),
             Fprintf FRM (Frame 1 2 3 30), Fclose FRM]"
    by code_simp
  from snapshot_failure_not_reported [OF a b, of ex_env_diskfull "''a''"] a b c run
  show ?thesis by simp
qed

text \<open>
  C7. In the detection pass each (keypoint, orientation) pair writes one line to the
  frames sink if that sink is active and one line to the descriptors sink if that sink
  is active, each whatever the other sink is. Hence for an image that ends with \<^verbatim>\<open>err\<close>
  clear, the number of lines written to either sink is, if the sink is active, the sum
  over all octaves and all their keypoints of the keypoint's number of orientations,
  and 0 otherwise; and an inactive frames sink that is not open is not even opened.
\<close>

theorem one_record_per_orientation:
  "(\<forall>i \<in> {FRM, DSC}.
      length (written i (emit_record K filt k a)) = (if active (sink_of i K) then 1 else 0)) \<and>
   (st_err (process_image E C path K) = VL_ERR_OK \<longrightarrow>
      (\<exists>d. image_detector E C path = Some d \<and>
         length (written FRM (st_out (process_image E C path K))) =
           (if active (frm K) then detections d else 0) \<and>
         length (written DSC (st_out (process_image E C path K))) =
           (if active (dsc K) then detections d else 0))) \<and>
   (\<not> active (frm K) \<and> fm_file (frm K) = None \<longrightarrow>
      (\<forall>e \<in> set (st_out (process_image E C path K)). event_sink e \<noteq> Some FRM))"
proof -
  have a: "\<forall>i \<in> {FRM, DSC}.
      length (written i (emit_record K filt k a)) = (if active (sink_of i K) then 1 else 0)"
    by (simp add: length_written_emit_record)
  have b: "\<exists>d. image_detector E C path = Some d \<and>
         length (written FRM (st_out (process_image E C path K))) =
           (if active (frm K) then detections d else 0) \<and>
         length (written DSC (st_out (process_image E C path K))) =
           (if active (dsc K) then detections d else 0)"
    if ok: "st_err (process_image E C path K) = VL_ERR_OK"
    using process_image_ok [OF ok, of FRM] process_image_ok [OF ok, of DSC] by auto
  have c: "\<forall>e \<in> set (st_out (process_image E C path K)). event_sink e \<noteq> Some FRM"
    if "\<not> active (frm K) \<and> fm_file (frm K) = None"
    using process_image_quiet [of FRM K E C path] that
    by (auto simp: quiet_def quiet_sinks_def touches_def)
  from a b c show ?thesis by blast
qed

text \<open>
  With only the descriptors sink active, the example image writes three descriptor
  lines, one per orientation of its two keypoints, and no event is on the frames sink.
\<close>

theorem one_record_per_orientation_witness:
  "st_err (process_image ex_env initial_options ''a.pgm'' ex_sinks_descr) = VL_ERR_OK \<and>
   image_detector ex_env initial_options ''a.pgm'' = Some (Octave ex_filt (NoMore VL_ERR_EOF)) \<and>
   detections (Octave ex_filt (NoMore VL_ERR_EOF)) = 3 \<and>
   length (written DSC (st_out (process_image ex_env initial_options ''a.pgm'' ex_sinks_descr))) = 3 \<and>
   length (written FRM (st_out (process_image ex_env initial_options ''a.pgm'' ex_sinks_descr))) = 0 \<and>
   \<not> active (frm ex_sinks_descr) \<and> fm_file (frm ex_sinks_descr) = None \<and>
   \<not> (\<exists>e \<in> set (st_out (process_image ex_env initial_options ''a.pgm'' ex_sinks_descr)).
        event_sink e = Some FRM)"
proof -
  have ok: "st_err (process_image ex_env initial_options ''a.pgm'' ex_sinks_descr) = VL_ERR_OK"
    by code_simp
  have det: "image_detector ex_env initial_options ''a.pgm'' = Some (Octave ex_filt (NoMore VL_ERR_EOF))"
    by (simp add: image_detector_def ex_env_def)
  have n: "detections (Octave ex_filt (NoMore VL_ERR_EOF)) = 3"
    by (simp add: orientation_count_def ex_filt_def upt_rec [of _ 2])
  have sinks: "\<not> active (frm ex_sinks_descr)" "fm_file (frm ex_sinks_descr) = None"
    "active (dsc ex_sinks_descr)"
    by (simp_all add: ex_sinks_descr_def sinks_of_def initial_options_def)
  from one_record_per_orientation [of ex_sinks_descr ex_filt 0 10 ex_env initial_options "''a.pgm''"]
    ok det n sinks
  show ?thesis by auto
qed

subsection \<open>Option parsing stops at the first error\<close>

lemma parse_options_err: "opt_err ps \<noteq> VL_ERR_OK \<Longrightarrow> parse_options E opts ps = Parsed ps"
  by (cases opts) auto

lemma parse_options_append:
  "parse_options E (xs @ ys) ps =
     (case parse_options E xs ps of
        Parsed ps' \<Rightarrow> parse_options E ys ps'
      | Exited c \<Rightarrow> Exited c
      | Aborted \<Rightarrow> Aborted)"
proof (induction xs arbitrary: ps)
  case Nil
  then show ?case by simp
next
  case (Cons x xs)
  obtain ch arg where x: "x = (ch, arg)" by (cases x)
  show ?case
  proof (cases "opt_err ps \<noteq> VL_ERR_OK")
    case True
    then show ?thesis by (simp add: x parse_options_err)
  next
    case False
    then show ?thesis
      by (cases "parse_option E ch arg ps") (simp_all add: x Cons.IH)
  qed
qed

text \<open>
  C9. When the parsing loop reaches a \<^verbatim>\<open>--meta\<close> option (the options before it were
  parsed without error and did not end the process) and the specification leaves the
  meta sink with a protocol other than ASCII, the process prints one diagnostic with
  the code \<^verbatim>\<open>VL_ERR_BAD_ARG\<close> and exits with status 1; it performs no other event,
  whatever options and images follow.
\<close>

theorem meta_protocol_not_ascii_exits:
  assumes "parse_options E pre initial_options = Parsed ps"
    and "opt_err ps = VL_ERR_OK"
    and "protocol (snd (vl_file_meta_parse E (met ps) optarg)) \<noteq> VL_PROT_ASCII"
  shows "\<exists>msg. main E (pre @ (Opt_meta optarg, arg) # rest) files =
           Exit 1 [Stderr msg (Some VL_ERR_BAD_ARG)]"
proof -
  from assms(3)
  have "\<exists>ps1. parse_option E (Opt_meta optarg) arg ps = Parsed ps1 \<and>
          opt_err ps1 = Some VL_ERR_BAD_ARG"
    by (simp add: split_def Let_def ERR_def)
  then obtain ps1 where
    step: "parse_option E (Opt_meta optarg) arg ps = Parsed ps1"
    and err: "opt_err ps1 = Some VL_ERR_BAD_ARG"
    by blast
  from err have "opt_err ps1 \<noteq> VL_ERR_OK" by (simp add: VL_ERR_OK_def)
  with assms(1,2) step
  have "parse_options E (pre @ (Opt_meta optarg, arg) # rest) initial_options = Parsed ps1"
    by (simp add: parse_options_append parse_options_err)
  with err show ?thesis
    by (simp add: main_def VL_ERR_OK_def)
qed

theorem meta_protocol_not_ascii_exits_witness:
  "parse_options ex_env_binary [(Ch_v, ''-v'')] initial_options =
     Parsed (initial_options\<lparr>verbose := 1\<rparr>) \<and>
   opt_err (initial_options\<lparr>verbose := 1\<rparr>) = VL_ERR_OK \<and>
   protocol (snd (vl_file_meta_parse ex_env_binary (met (initial_options\<lparr>verbose := 1\<rparr>))
     (Some ''bin://%.meta''))) = VL_PROT_BINARY_LE \<and>
   main ex_env_binary [(Ch_v, ''-v''), (Opt_meta (Some ''bin://%.meta''), ''--meta''), (Ch_h, ''-h'')]
     [''a.pgm''] =
     Exit 1 [Stderr ''meta file supports only ASCII protocol'' (Some VL_ERR_BAD_ARG)]"
proof -
  have a: "parse_options ex_env_binary [(Ch_v, ''-v'')] initial_options =
     Parsed (initial_options\<lparr>verbose := 1\<rparr>)"
    by (simp add: initial_options_def VL_ERR_OK_def)
  have b: "opt_err (initial_options\<lparr>verbose := 1\<rparr>) = VL_ERR_OK"
    by (simp add: initial_options_def)
  have c: "protocol (snd (vl_file_meta_parse ex_env_binary (met (initial_options\<lparr>verbose := 1\<rparr>))
     (Some ''bin://%.meta''))) = VL_PROT_BINARY_LE"
    by (simp add: ex_env_binary_def)
  then have c': "protocol (snd (vl_file_meta_parse ex_env_binary (met (initial_options\<lparr>verbose := 1\<rparr>))
     (Some ''bin://%.meta''))) \<noteq> VL_PROT_ASCII"
    by simp
  have d: "main ex_env_binary
      [(Ch_v, ''-v''), (Opt_meta (Some ''bin://%.meta''), ''--meta''), (Ch_h, ''-h'')] [''a.pgm''] =
     Exit 1 [Stderr ''meta file supports only ASCII protocol'' (Some VL_ERR_BAD_ARG)]"
    by code_simp
  from meta_protocol_not_ascii_exits [OF a b c', of "''--meta''" "[(Ch_h, ''-h'')]" "[''a.pgm'']"]
    a b c d
  show ?thesis by simp
qed

subsection \<open>A successful snapshot\<close>

lemma open_success:
  "active fm \<Longrightarrow> length (resolve (pattern fm) b) \<le> name_max E \<Longrightarrow>
   fopen_w E (resolve (pattern fm) b) \<Longrightarrow>
   vl_file_meta_open E i fm b =
     (VL_ERR_OK, fm\<lparr>name := resolve (pattern fm) b, fm_file := Some (resolve (pattern fm) b)\<rparr>,
      [Fopen i (resolve (pattern fm) b)])"
  by (simp add: vl_file_meta_open_def Let_def)

lemma gss_tmp_fits:
  "length basename + length (gss_suffix (filt_o_cur filt) s) < 1024 \<Longrightarrow>
     gss_tmp basename filt s = basename @ gss_suffix (filt_o_cur filt) s"
  by (simp add: gss_tmp_def)

lemma gss_level_events_alt:
  "gss_level_events fm basename filt s =
     [Fopen GSS (resolve (pattern fm) (basename @ gss_suffix (filt_o_cur filt) s)),
      Pgm_insert GSS (gss_pim filt) (gss_buffer filt s), Fclose GSS]"
  by (simp add: gss_level_events_def gss_pim_def gss_buffer_def)

lemma gss_levels_success:
  assumes "active fm" and "fm_file fm = None"
    and "\<forall>s' \<in> {s ..< filt_S filt}. gss_level_ok E fm basename filt s'"
  shows "snd (snd (gss_levels E filt basename s err fm)) =
           concat (map (gss_level_events fm basename filt) [s .. filt_S filt - 1]) \<and>
         fm_file (fst (snd (gss_levels E filt basename s err fm))) = None"
  using assms
proof (induction "nat (filt_S filt - s)" arbitrary: s err fm)
  case 0
  then show ?case by (simp add: gss_levels_done)
next
  case (Suc n)
  from Suc.hyps(2) have lt: "s < filt_S filt" and n: "n = nat (filt_S filt - (s + 1))" by auto
  let ?p = "resolve (pattern fm) (basename @ gss_suffix (filt_o_cur filt) s)"
  let ?fm' = "fm\<lparr>name := ?p, fm_file := None\<rparr>"
  from Suc.prems(3) lt have ok: "gss_level_ok E fm basename filt s" by simp
  then have tmp: "gss_tmp basename filt s = basename @ gss_suffix (filt_o_cur filt) s"
    by (simp add: gss_level_ok_def gss_tmp_fits)
  from ok Suc.prems(1) have op: "vl_file_meta_open E GSS fm (gss_tmp basename filt s) =
      (VL_ERR_OK, fm\<lparr>name := ?p, fm_file := Some ?p\<rparr>, [Fopen GSS ?p])"
    unfolding tmp by (simp add: gss_level_ok_def open_success)
  from ok have ins: "vl_pgm_insert E GSS (fm\<lparr>name := ?p, fm_file := Some ?p\<rparr>) (gss_pim filt)
      (gss_buffer filt s) = (VL_ERR_OK, [Pgm_insert GSS (gss_pim filt) (gss_buffer filt s)])"
    by (simp add: vl_pgm_insert_def gss_level_ok_def VL_ERR_OK_def)
  have cl: "vl_file_meta_close GSS (fm\<lparr>name := ?p, fm_file := Some ?p\<rparr>) = (?fm', [Fclose GSS])"
    by (simp add: vl_file_meta_close_def)
  have step: "gss_levels E filt basename s err fm =
      (fst (gss_levels E filt basename (s + 1) VL_ERR_OK ?fm'),
       fst (snd (gss_levels E filt basename (s + 1) VL_ERR_OK ?fm')),
       gss_level_events fm basename filt s @
         snd (snd (gss_levels E filt basename (s + 1) VL_ERR_OK ?fm')))"
    by (simp add: gss_levels_step [OF lt] op ins cl Let_def gss_level_events_alt)
  have ok': "\<forall>s' \<in> {s + 1 ..< filt_S filt}. gss_level_ok E ?fm' basename filt s'"
    using Suc.prems(3) by (simp add: gss_level_ok_def)
  have ev': "gss_level_events ?fm' basename filt = gss_level_events fm basename filt"
    by (simp add: gss_level_events_def fun_eq_iff)
  from Suc.prems(1) have act: "active ?fm'" by simp
  have cls: "fm_file ?fm' = None" by simp
  from Suc.hyps(1) [OF n act cls ok', of VL_ERR_OK] lt show ?case
    by (simp add: step ev' upto_rec1 [of s])
qed

lemma digit_char_0: "digit_char 0 = CHR ''0''"
  by (simp add: digit_char_def)

lemma dec_1: "n < 10 \<Longrightarrow> dec n = [digit_char n]"
  by (simp add: dec.simps)

lemma dec_2: "10 \<le> n \<Longrightarrow> n < 100 \<Longrightarrow> dec n = [digit_char (n div 10), digit_char n]"
  by (subst dec.simps) (simp add: dec_1)

lemma dec_3:
  "100 \<le> n \<Longrightarrow> n < 1000 \<Longrightarrow> dec n = [digit_char (n div 100), digit_char (n div 10), digit_char n]"
  by (subst dec.simps) (simp add: dec_2 div_mult2_eq [symmetric])

lemma fmt_0d_2:
  "0 \<le> v \<Longrightarrow> v < 100 \<Longrightarrow> fmt_0d 2 v = [digit_char (nat v div 10), digit_char (nat v)]"
  by (cases "nat v < 10") (simp_all add: fmt_0d_def dec_1 dec_2 digit_char_0)

lemma fmt_0d_3:
  "0 \<le> v \<Longrightarrow> v < 1000 \<Longrightarrow>
     fmt_0d 3 v = [digit_char (nat v div 100), digit_char (nat v div 10), digit_char (nat v)]"
proof -
  assume v: "0 \<le> v" "v < 1000"
  consider "nat v < 10" | "10 \<le> nat v" "nat v < 100" | "100 \<le> nat v" "nat v < 1000"
    using v by linarith
  then show ?thesis
    using v by cases (simp_all add: fmt_0d_def dec_1 dec_2 dec_3 digit_char_0 numeral_3_eq_3)
qed

lemma gss_suffix_fixed_width:
  "0 \<le> v \<Longrightarrow> v < 100 \<Longrightarrow> 0 \<le> s \<Longrightarrow> s < 1000 \<Longrightarrow>
     gss_suffix v s =
       [CHR ''_'', digit_char (nat v div 10), digit_char (nat v),
        CHR ''_'', digit_char (nat s div 100), digit_char (nat s div 10), digit_char (nat s)]"
  by (simp add: gss_suffix_def fmt_0d_2 fmt_0d_3)

text \<open>
  C8. When the gss sink is active (and not open), the buffer is allocated and every
  per-level file can be opened and written under its untruncated name, snapshotting one
  octave performs, for each level \<open>s\<close> from 0 to \<open>S - 1\<close> in order, exactly: the opening
  of the file whose name the sink derives from the base name extended with the suffix
  of the current octave and \<open>s\<close>, the writing of the plane of the level, of the width
  and height of the octave and narrowed sample by sample to 8 bits, and the closing of
  the file. These are \<open>S\<close> files, and the sink is closed at the end. For an octave index
  from 0 to 99 and a level below 1000 the suffix is an underscore, the two decimal digits
  of the octave, an underscore and the three decimal digits of the level.
\<close>

theorem snapshot_one_file_per_level:
  assumes "active fm" and "fm_file fm = None" and "gss_malloc filt"
    and "\<forall>s \<in> {0 ..< filt_S filt}. gss_level_ok E fm basename filt s"
  shows "snd (snd (save_gss E filt fm basename)) =
           concat (map (gss_level_events fm basename filt) [0 .. filt_S filt - 1]) \<and>
         length [0 .. filt_S filt - 1] = nat (filt_S filt) \<and>
         fm_file (fst (snd (save_gss E filt fm basename))) = None \<and>
         (0 \<le> v \<and> v < 100 \<and> 0 \<le> s \<and> s < 1000 \<longrightarrow>
            gss_suffix v s =
              [CHR ''_'', digit_char (nat v div 10), digit_char (nat v),
               CHR ''_'', digit_char (nat s div 100), digit_char (nat s div 10),
               digit_char (nat s)])"
proof -
  have ev: "snd (snd (save_gss E filt fm basename)) =
      concat (map (gss_level_events fm basename filt) [0 .. filt_S filt - 1])"
  proof (cases "0 < filt_S filt")
    case True
    with assms(4) have "gss_level_ok E fm basename filt 0" by simp
    then have fits: "\<not> 1024 \<le> length basename" by (simp add: gss_level_ok_def)
    from gss_levels_success [OF assms(1,2,4), of "gss_result filt"] assms(1,3) fits
    show ?thesis
      by (simp add: save_gss_def save_gss_body_def split_def Let_def close_None)
  next
    case False
    with assms(1,2,3) show ?thesis
      by (simp add: save_gss_def save_gss_body_def split_def Let_def close_None gss_levels_done)
  qed
  from assms(1) have "fm_file (fst (snd (save_gss E filt fm basename))) = None"
    by (rule save_gss_closed)
  with ev show ?thesis
    by (simp add: gss_suffix_fixed_width)
qed

theorem snapshot_one_file_per_level_witness:
  "active ((gss initial_options)\<lparr>active := True\<rparr>) \<and>
   fm_file ((gss initial_options)\<lparr>active := True\<rparr>) = None \<and>
   gss_malloc ex_filt \<and> filt_S ex_filt = 2 \<and>
   gss_level_ok ex_env ((gss initial_options)\<lparr>active := True\<rparr>) ''a'' ex_filt 0 \<and>
   gss_level_ok ex_env ((gss initial_options)\<lparr>active := True\<rparr>) ''a'' ex_filt 1 \<and>
   snd (snd (save_gss ex_env ex_filt ((gss initial_options)\<lparr>active := True\<rparr>) ''a'')) =
     [Fopen GSS ''a_00_000.pgm'',
      Pgm_insert GSS \<lparr>width = 2, height = 1, max_value = 255, is_raw = 1\<rparr> [44, 44],
      Fclose GSS,
      Fopen GSS ''a_00_001.pgm'',
      Pgm_insert GSS \<lparr>width = 2, height = 1, max_value = 255, is_raw = 1\<rparr> [45, 45],
      Fclose GSS] \<and>
   gss_suffix 7 12 = ''_07_012''"
proof -
  let ?fm = "(gss initial_options)\<lparr>active := True\<rparr>"
  have a: "active ?fm" "fm_file ?fm = None" "gss_malloc ex_filt" "filt_S ex_filt = 2"
    by (simp_all add: initial_options_def ex_filt_def)
  have l0: "gss_level_ok ex_env ?fm ''a'' ex_filt 0" by code_simp
  have l1: "gss_level_ok ex_env ?fm ''a'' ex_filt 1" by code_simp
  have levels: "\<forall>s \<in> {0 ..< filt_S ex_filt}. gss_level_ok ex_env ?fm ''a'' ex_filt s"
  proof
    fix s :: int
    assume "s \<in> {0 ..< filt_S ex_filt}"
    then have "s = 0 \<or> s = 1" by (auto simp: a(4))
    with l0 l1 show "gss_level_ok ex_env ?fm ''a'' ex_filt s" by auto
  qed
  have ev: "concat (map (gss_level_events ?fm ''a'' ex_filt) [0 .. filt_S ex_filt - 1]) =
     [Fopen GSS ''a_00_000.pgm'',
      Pgm_insert GSS \<lparr>width = 2, height = 1, max_value = 255, is_raw = 1\<rparr> [44, 44],
      Fclose GSS,
      Fopen GSS ''a_00_001.pgm'',
      Pgm_insert GSS \<lparr>width = 2, height = 1, max_value = 255, is_raw = 1\<rparr> [45, 45],
      Fclose GSS]"
    by code_simp
  have sfx: "gss_suffix 7 12 = ''_07_012''" by code_simp
  from snapshot_one_file_per_level [OF a(1,2,3) levels, of 7 12] a l0 l1 ev sfx
  show ?thesis by simp
qed

subsection \<open>Every file an image opens is closed\<close>

lemma opens_append [simp]: "opens i (xs @ ys) = opens i xs + opens i ys"
  by (simp add: opens_def)

lemma closes_append [simp]: "closes i (xs @ ys) = closes i xs + closes i ys"
  by (simp add: closes_def)

lemma opens_closes_Nil [simp]: "opens i [] = 0" "closes i [] = 0"
  by (simp_all add: opens_def closes_def)







lemma balanced_update [simp]:
  "balanced i (st\<lparr>st_err := e\<rparr>) = balanced i st"
  "balanced i (st\<lparr>st_err_msg := m\<rparr>) = balanced i st"
  "balanced i (st\<lparr>st_in := b\<rparr>) = balanced i st"
  "balanced i (st\<lparr>st_data := b\<rparr>) = balanced i st"
  "balanced i (st\<lparr>st_fdata := b\<rparr>) = balanced i st"
  "balanced i (st\<lparr>st_filt := b\<rparr>) = balanced i st"
  by (simp_all add: balanced_def)


lemma emit_keypoints_counts:
  "opens i (emit_keypoints K filt) = 0" "closes i (emit_keypoints K filt) = 0"
  by (auto simp: opens_def closes_def filter_empty_conv dest!: emit_keypoints_events)

lemma detect_and_emit_balanced [simp]:
  "balanced i (detect_and_emit filt st) = balanced i st"
  by (simp add: balanced_def detect_and_emit_def emit_keypoints_counts)


lemma write_meta_sink [simp]: "sink_of i (write_meta path st) = sink_of i st"
  by (cases i) (simp_all add: write_meta_def)

lemma write_meta_balanced [simp]: "balanced i (write_meta path st) = balanced i st"
  by (simp add: balanced_def) (simp add: write_meta_def opens_def closes_def)






lemma open_sink_keeps [simp]:
  "frm (open_dsc E b st) = frm st" "met (open_dsc E b st) = met st" "gss (open_dsc E b st) = gss st"
  "met (open_frm E b st) = met st" "gss (open_frm E b st) = gss st"
  "gss (open_met E b st) = gss st"
  by (simp_all add: open_dsc_def open_frm_def open_met_def split_def Let_def)



lemma closed_sinks_update [simp]: "closed_sinks (st\<lparr>st_in := b\<rparr>) = closed_sinks st"
  by (simp add: closed_sinks_def)













end
